theory Spec2Isabelle
  imports Complex_Main "HOL-Library.AList"
begin

section \<open>Data model\<close>

text \<open>
  The program (\<^verbatim>\<open>dados.py\<close>) moves tabular data between delimited files, pandas
  frames and tables of a relational store. A cell is a null (pandas \<^verbatim>\<open>NaN\<close>/\<^verbatim>\<open>None\<close>,
  SQL \<^verbatim>\<open>NULL\<close>), a number or a text. A row is an association list from column name to
  cell, in column order; a frame (and a table, and a parsed file) is its list of column
  names together with its rows, in index order. Scores are modelled as real numbers:
  the arithmetic of the model is exact.
\<close>

datatype cell = Null | Num real | Txt string

type_synonym row = "(string \<times> cell) list"

record dataframe =
  columns :: "string list"
  rows :: "row list"

text \<open>The exceptions the modelled code paths can raise.\<close>

datatype error = FileNotFoundError | ValueError | TypeError | ProgrammingError | DataError

text \<open>
  The \<^verbatim>\<open>if_exists\<close> argument of \<^verbatim>\<open>DataFrame.to_sql\<close>, and the observable I/O of a run:
  a file opened for reading, a frame written to a table, a query sent to the store.
\<close>

datatype if_exists = Replace | Append

datatype event = OpenCsv string | ToSql string if_exists nat | ReadSql

text \<open>
  The columns of a table of the store are typed. \<^verbatim>\<open>to_sql\<close> creates a table with the
  types of the frame it is given, which pandas infers from the values of that frame alone:
  a column holding a text is a text column, a column of numbers and nulls is a numeric
  one, and the columns of a frame without rows are text columns.
\<close>

datatype sqltype = SqlNumber | SqlText

text \<open>
  The world a run acts on: the files on disk by path (parsed: header and rows), the
  tables of the store behind the engine by name, the column types of each table, and the
  log of I/O performed so far. Progress messages printed by the program are not part of
  the model.
\<close>

record world =
  files :: "string \<rightharpoonup> dataframe"
  tables :: "string \<rightharpoonup> dataframe"
  column_types :: "string \<rightharpoonup> (string \<times> sqltype) list"
  trace :: "event list"

definition path_exists :: "world \<Rightarrow> string \<Rightarrow> bool" where
  "path_exists w p = (files w p \<noteq> None)"

definition has_table :: "world \<Rightarrow> string \<Rightarrow> bool" where
  "has_table w t = (tables w t \<noteq> None)"

definition cell_of :: "row \<Rightarrow> string \<Rightarrow> cell" where
  "cell_of r c = (case map_of r c of None \<Rightarrow> Null | Some v \<Rightarrow> v)"

section \<open>Library operations used by the loaders\<close>

fun is_txt :: "cell \<Rightarrow> bool" where
  "is_txt (Txt _) = True"
| "is_txt _ = False"

text \<open>The column types pandas gives a table it creates from a frame.\<close>

definition infer_types :: "dataframe \<Rightarrow> (string \<times> sqltype) list" where
  "infer_types df =
     map (\<lambda>c. (c, if rows df = [] \<or> list_ex (\<lambda>r. is_txt (cell_of r c)) (rows df)
                    then SqlText else SqlNumber))
         (columns df)"

text \<open>
  A row can be inserted under given column types unless it brings a text to a numeric
  column. A null fits every column, and a number is stored in a text column as its text.
\<close>

definition row_fits :: "(string \<times> sqltype) list \<Rightarrow> string list \<Rightarrow> row \<Rightarrow> bool" where
  "row_fits ts cols r =
     list_all (\<lambda>c. \<not> (is_txt (cell_of r c) \<and> map_of ts c = Some SqlNumber)) cols"

definition fits :: "(string \<times> sqltype) list \<Rightarrow> dataframe \<Rightarrow> bool" where
  "fits ts df = list_all (row_fits ts (columns df)) (rows df)"

definition types_of :: "world \<Rightarrow> string \<Rightarrow> (string \<times> sqltype) list" where
  "types_of w name = (case column_types w name of None \<Rightarrow> [] | Some ts \<Rightarrow> ts)"

text \<open>
  \<^verbatim>\<open>df.to_sql(name, engine, if_exists=mode, index=False)\<close>. With \<^verbatim>\<open>replace\<close> the table is
  dropped and created anew from the frame, with the column types of the frame. With
  \<^verbatim>\<open>append\<close> the rows are inserted into the existing table (which is created when
  absent): inserting a column the table does not have, or a text into a numeric column,
  is an error of the store, and then no row of the frame is inserted.
\<close>

definition to_sql :: "dataframe \<Rightarrow> string \<Rightarrow> if_exists \<Rightarrow> world \<Rightarrow> (error + unit) \<times> world" where
  "to_sql df name mode w =
     (case mode of
        Replace \<Rightarrow>
          (Inr (), w\<lparr>tables := (tables w)(name \<mapsto> df),
                       column_types := (column_types w)(name \<mapsto> infer_types df),
                       trace := trace w @ [ToSql name Replace (length (rows df))]\<rparr>)
      | Append \<Rightarrow>
          (case tables w name of
             None \<Rightarrow>
               (Inr (), w\<lparr>tables := (tables w)(name \<mapsto> df),
                            column_types := (column_types w)(name \<mapsto> infer_types df),
                            trace := trace w @ [ToSql name Append (length (rows df))]\<rparr>)
           | Some t \<Rightarrow>
               if \<not> set (columns df) \<subseteq> set (columns t) then (Inl ProgrammingError, w)
               else if \<not> fits (types_of w name) df then (Inl DataError, w)
               else (Inr (), w\<lparr>tables := (tables w)(name \<mapsto> t\<lparr>rows := rows t @ rows df\<rparr>),
                                 trace := trace w @ [ToSql name Append (length (rows df))]\<rparr>)))"

text \<open>Consecutive slices of at most \<open>n\<close> elements, as a chunked reader or writer cuts them.\<close>

function chunk_rows :: "nat \<Rightarrow> 'a list \<Rightarrow> 'a list list" where
  "chunk_rows n xs = (if n = 0 \<or> xs = [] then [] else take n xs # chunk_rows n (drop n xs))"
  by pat_completeness auto
termination
  by (relation "measure (\<lambda>(n, xs). length xs)") auto

declare chunk_rows.simps [simp del]

text \<open>
  \<^verbatim>\<open>pd.read_csv(path, sep=';', encoding='ISO-8859-1', chunksize=n, low_memory=False)\<close>:
  the chunk size is validated first (it must be at least 1), then the file is opened.
  Iterating the reader yields the rows in consecutive frames of at most \<open>n\<close> rows, each
  with the file's columns; a file with a header and no rows yields one empty frame.
\<close>

definition read_csv_chunks :: "string \<Rightarrow> nat \<Rightarrow> world \<Rightarrow> (error + dataframe list) \<times> world" where
  "read_csv_chunks path n w =
     (if n = 0 then (Inl ValueError, w)
      else case files w path of
             None \<Rightarrow> (Inl FileNotFoundError, w)
           | Some df \<Rightarrow>
               (Inr (if rows df = [] then [df]
                     else map (\<lambda>rs. \<lparr>columns = columns df, rows = rs\<rparr>) (chunk_rows n (rows df))),
                w\<lparr>trace := trace w @ [OpenCsv path]\<rparr>))"

section \<open>Bulk Loader\<close>

text \<open>
  The loop of \<^verbatim>\<open>carregar_tabela_csv\<close> over \<^verbatim>\<open>enumerate(chunk_iter)\<close>: chunk \<open>i\<close> is written
  with \<^verbatim>\<open>'append' if i > 0 else 'replace'\<close>; an exception of a write ends the loop.
\<close>

fun write_chunks :: "string \<Rightarrow> nat \<Rightarrow> dataframe list \<Rightarrow> world \<Rightarrow> (error + unit) \<times> world" where
  "write_chunks nome_tabela i [] w = (Inr (), w)"
| "write_chunks nome_tabela i (chunk # cs) w =
     (case to_sql chunk nome_tabela (if i > 0 then Append else Replace) w of
        (Inl e, w') \<Rightarrow> (Inl e, w')
      | (Inr _, w') \<Rightarrow> write_chunks nome_tabela (i + 1) cs w')"

definition carregar_tabela_csv :: "string \<Rightarrow> string \<Rightarrow> nat \<Rightarrow> world \<Rightarrow> (error + unit) \<times> world" where
  "carregar_tabela_csv nome_tabela caminho_csv chunksize w =
     (if \<not> path_exists w caminho_csv then (Inl FileNotFoundError, w)
      else case read_csv_chunks caminho_csv chunksize w of
             (Inl e, w') \<Rightarrow> (Inl e, w')
           | (Inr chunk_iter, w') \<Rightarrow> write_chunks nome_tabela 0 chunk_iter w')"

text \<open>
  Whether the rows after the first batch of \<open>n\<close> fit the column types inferred from the
  first batch: no column that is free of text in the first \<open>n\<close> rows holds a text later.
\<close>

definition types_fit :: "nat \<Rightarrow> dataframe \<Rightarrow> bool" where
  "types_fit n df = fits (infer_types \<lparr>columns = columns df, rows = take n (rows df)\<rparr>)
                         \<lparr>columns = columns df, rows = drop n (rows df)\<rparr>"

text \<open>The write modes of the writes recorded in a log, in order.\<close>

fun write_modes :: "event list \<Rightarrow> if_exists list" where
  "write_modes [] = []"
| "write_modes (ToSql _ m _ # es) = m # write_modes es"
| "write_modes (_ # es) = write_modes es"

definition row_count :: "world \<Rightarrow> string \<Rightarrow> nat option" where
  "row_count w t = map_option (\<lambda>df. length (rows df)) (tables w t)"

section \<open>Join Loader\<close>

text \<open>
  The configuration dictionary. Its values come from the environment
  (\<^verbatim>\<open>carregar_config\<close>, where an unset variable gives \<^verbatim>\<open>None\<close>); the loaders use them as
  strings. The value type is a parameter: \<open>string option config\<close> is what
  \<^verbatim>\<open>carregar_config\<close> builds, \<open>string config\<close> is a configuration whose values are all
  set, which is what the loaders are modelled on.
\<close>

record 'a config =
  DB_HOST :: 'a
  DB_PORT :: int
  DB_NAME :: 'a
  DB_USER :: 'a
  DB_PASS :: 'a
  ARQUIVO_PARTICIPANTES :: 'a
  ARQUIVO_RESULTADOS :: 'a
  TABELA_PARTICIPANTES :: 'a
  TABELA_RESULTADOS :: 'a

text \<open>
  \<^verbatim>\<open>pd.read_csv(path, sep=';', encoding='ISO-8859-1', usecols=..., low_memory=False)\<close>
  without chunking: the whole file as one frame. With \<^verbatim>\<open>usecols\<close> only the named columns
  are kept (in the file's order); a name that is not in the header is a \<^verbatim>\<open>ValueError\<close>,
  raised after the file was opened.
\<close>

definition read_csv :: "string \<Rightarrow> string list option \<Rightarrow> world \<Rightarrow> (error + dataframe) \<times> world" where
  "read_csv path usecols w =
     (case files w path of
        None \<Rightarrow> (Inl FileNotFoundError, w)
      | Some df \<Rightarrow>
          (case usecols of
             None \<Rightarrow> (Inr df, w\<lparr>trace := trace w @ [OpenCsv path]\<rparr>)
           | Some cs \<Rightarrow>
               if set cs \<subseteq> set (columns df)
               then (Inr \<lparr>columns = filter (\<lambda>c. c \<in> set cs) (columns df),
                          rows = map (filter (\<lambda>kv. fst kv \<in> set cs)) (rows df)\<rparr>,
                     w\<lparr>trace := trace w @ [OpenCsv path]\<rparr>)
               else (Inl ValueError, w\<lparr>trace := trace w @ [OpenCsv path]\<rparr>)))"

text \<open>\<^verbatim>\<open>df[c]\<close>: the column as a series over the frame's index.\<close>

definition column_values :: "dataframe \<Rightarrow> string \<Rightarrow> cell list" where
  "column_values df c = map (\<lambda>r. cell_of r c) (rows df)"

text \<open>
  \<^verbatim>\<open>df[c] = series\<close>, for a series over the default index \<open>0, 1, 2, ...\<close> and a frame over
  the same kind of index. The series is aligned to the frame's index: row \<open>i\<close> gets the
  series' value at \<open>i\<close>, a row beyond the end of the series gets a null, values of the
  series beyond the last row are dropped. An existing column is overwritten in place, a
  new one is added last.
\<close>

fun assign :: "string \<Rightarrow> cell list \<Rightarrow> row list \<Rightarrow> row list" where
  "assign c s [] = []"
| "assign c [] (r # rs) = AList.update c Null r # assign c [] rs"
| "assign c (v # s) (r # rs) = AList.update c v r # assign c s rs"

text \<open>
  pandas treats a frame without rows specially (\<^verbatim>\<open>DataFrame._ensure_valid_index\<close>): when
  a non-empty series is assigned to it, the frame first takes over the index of the
  series, with nulls in every column it has; then the column is set.
\<close>

definition set_column :: "dataframe \<Rightarrow> string \<Rightarrow> cell list \<Rightarrow> dataframe" where
  "set_column df c s =
     \<lparr>columns = (if c \<in> set (columns df) then columns df else columns df @ [c]),
      rows = (if rows df = [] \<and> s \<noteq> []
              then assign c s (map (\<lambda>_. map (\<lambda>k. (k, Null)) (columns df)) s)
              else assign c s (rows df))\<rparr>"

text \<open>
  \<^verbatim>\<open>df.to_sql(name, engine, index=False, if_exists='replace', chunksize=n)\<close>: the table is
  replaced and the rows are inserted in batches of \<open>n\<close>, in one transaction. A batch size
  of zero is refused (when there are rows to insert), and nothing is changed then.
\<close>

definition to_sql_batched :: "dataframe \<Rightarrow> string \<Rightarrow> nat \<Rightarrow> world \<Rightarrow> (error + unit) \<times> world" where
  "to_sql_batched df name chunksize w =
     (if rows df \<noteq> [] \<and> chunksize = 0 then (Inl ValueError, w)
      else to_sql (df\<lparr>rows := concat (chunk_rows chunksize (rows df))\<rparr>) name Replace w)"

definition carregar_tabela_resultados :: "string config \<Rightarrow> nat \<Rightarrow> world \<Rightarrow> (error + unit) \<times> world" where
  "carregar_tabela_resultados config chunksize w =
     (let nome_tabela = TABELA_RESULTADOS config;
          caminho_csv = ARQUIVO_RESULTADOS config
      in if \<not> path_exists w caminho_csv then (Inl FileNotFoundError, w)
         else case read_csv (ARQUIVO_PARTICIPANTES config) (Some [''NU_INSCRICAO'']) w of
                (Inl e, w1) \<Rightarrow> (Inl e, w1)
              | (Inr df_inscricoes, w1) \<Rightarrow>
                  (case read_csv caminho_csv None w1 of
                     (Inl e, w2) \<Rightarrow> (Inl e, w2)
                   | (Inr df_resultados, w2) \<Rightarrow>
                       to_sql_batched
                         (set_column df_resultados ''NU_INSCRICAO''
                            (column_values df_inscricoes ''NU_INSCRICAO''))
                         nome_tabela chunksize w2))"

section \<open>Load Orchestrator\<close>

text \<open>
  \<^verbatim>\<open>verificar_carregar\<close>: both existence flags are read from the catalog first; the
  loaders are called with their default batch size of 50000. An exception of the first
  loader propagates, so the second one is not reached.
\<close>

definition verificar_carregar :: "string config \<Rightarrow> world \<Rightarrow> (error + unit) \<times> world" where
  "verificar_carregar config w =
     (let tabela_p = TABELA_PARTICIPANTES config;
          tabela_r = TABELA_RESULTADOS config;
          tem_participantes = has_table w tabela_p;
          tem_resultados = has_table w tabela_r
      in if tem_participantes \<and> tem_resultados then (Inr (), w)
         else case (if \<not> tem_participantes
                    then carregar_tabela_csv tabela_p (ARQUIVO_PARTICIPANTES config) 50000 w
                    else (Inr (), w)) of
                (Inl e, w1) \<Rightarrow> (Inl e, w1)
              | (Inr _, w1) \<Rightarrow>
                  if \<not> tem_resultados then carregar_tabela_resultados config 50000 w1
                  else (Inr (), w1))"

section \<open>Extractor/Transformer\<close>

definition col_participante :: "string list" where
  "col_participante = [''Q006'', ''TP_SEXO'', ''TP_COR_RACA'', ''SG_UF_PROVA'']"

definition col_notas :: "string list" where
  "col_notas = [''NU_NOTA_CN'', ''NU_NOTA_CH'', ''NU_NOTA_LC'', ''NU_NOTA_MT'', ''NU_NOTA_REDACAO'']"

definition col_objetivas :: "string list" where
  "col_objetivas = [''NU_NOTA_CN'', ''NU_NOTA_CH'', ''NU_NOTA_LC'', ''NU_NOTA_MT'']"

text \<open>
  The query of \<^verbatim>\<open>extrair_processar\<close>, with the two table names of its \<^verbatim>\<open>FROM\<close> and
  \<^verbatim>\<open>JOIN\<close> clauses as parameters:
  \<^verbatim>\<open>SELECT p.Q006, p.TP_SEXO, p.TP_COR_RACA, p.SG_UF_PROVA, r.NU_NOTA_CN, r.NU_NOTA_CH,
  r.NU_NOTA_LC, r.NU_NOTA_MT, r.NU_NOTA_REDACAO FROM p JOIN r
  ON p.NU_INSCRICAO = r.NU_INSCRICAO WHERE p.Q006 IN ('A', 'B')\<close>.
  A table or a column that does not exist is an error of the store. In SQL a null is
  equal to nothing, itself included.
\<close>

definition join_on :: "row \<Rightarrow> row \<Rightarrow> bool" where
  "join_on p r = (cell_of p ''NU_INSCRICAO'' \<noteq> Null
                  \<and> cell_of p ''NU_INSCRICAO'' = cell_of r ''NU_INSCRICAO'')"

definition where_renda :: "row \<Rightarrow> bool" where
  "where_renda p = (cell_of p ''Q006'' = Txt ''A'' \<or> cell_of p ''Q006'' = Txt ''B'')"

definition select_row :: "row \<Rightarrow> row \<Rightarrow> row" where
  "select_row p r = map (\<lambda>c. (c, cell_of p c)) col_participante
                    @ map (\<lambda>c. (c, cell_of r c)) col_notas"

definition read_sql_query :: "string \<Rightarrow> string \<Rightarrow> world \<Rightarrow> (error + dataframe) \<times> world" where
  "read_sql_query tabela_p tabela_r w =
     (let w' = w\<lparr>trace := trace w @ [ReadSql]\<rparr>
      in case tables w tabela_p of
           None \<Rightarrow> (Inl ProgrammingError, w')
         | Some p \<Rightarrow>
             (case tables w tabela_r of
                None \<Rightarrow> (Inl ProgrammingError, w')
              | Some r \<Rightarrow>
                  if set (''NU_INSCRICAO'' # col_participante) \<subseteq> set (columns p)
                     \<and> set (''NU_INSCRICAO'' # col_notas) \<subseteq> set (columns r)
                  then (Inr \<lparr>columns = col_participante @ col_notas,
                             rows = concat (map (\<lambda>pr. map (select_row pr)
                                                       (filter (join_on pr) (rows r)))
                                                (filter where_renda (rows p)))\<rparr>,
                        w')
                  else (Inl ProgrammingError, w')))"

text \<open>\<^verbatim>\<open>df.dropna(subset=cols)\<close>: the rows with no null in the named columns.\<close>

definition dropna :: "string list \<Rightarrow> dataframe \<Rightarrow> dataframe" where
  "dropna cols df = df\<lparr>rows := filter (\<lambda>r. list_all (\<lambda>c. cell_of r c \<noteq> Null) cols) (rows df)\<rparr>"

text \<open>
  \<^verbatim>\<open>df[cols].mean(axis=1)\<close> for one row: the mean of the values that are not null
  (\<^verbatim>\<open>skipna\<close> is on by default), a null when there is none; a text among the values is a
  \<^verbatim>\<open>TypeError\<close>.
\<close>

fun numbers :: "cell list \<Rightarrow> real list" where
  "numbers [] = []"
| "numbers (Num x # cs) = x # numbers cs"
| "numbers (_ # cs) = numbers cs"

definition mean_axis1 :: "string list \<Rightarrow> row \<Rightarrow> error + cell" where
  "mean_axis1 cols r =
     (let cs = map (cell_of r) cols
      in if list_ex is_txt cs then Inl TypeError
         else if numbers cs = [] then Inr Null
         else Inr (Num (sum_list (numbers cs) / real (length (numbers cs)))))"

text \<open>A computation over every row of a frame that stops at the first exception.\<close>

fun row_wise :: "(row \<Rightarrow> error + cell) \<Rightarrow> row list \<Rightarrow> error + cell list" where
  "row_wise f [] = Inr []"
| "row_wise f (r # rs) =
     (case f r of
        Inl e \<Rightarrow> Inl e
      | Inr v \<Rightarrow> (case row_wise f rs of Inl e \<Rightarrow> Inl e | Inr vs \<Rightarrow> Inr (v # vs)))"

text \<open>
  \<^verbatim>\<open>df['Q006'].map({'A': 'Nenhuma Renda', 'B': 'Ate 1,3k'})\<close>: a value that is not a key
  of the dictionary is mapped to a null. In the source the third letter of the second label
  is an e with an acute accent, code point 233.
\<close>

definition label_A :: string where
  "label_A = ''Nenhuma Renda''"

definition label_B :: string where
  "label_B = ''At'' @ [char_of (233 :: nat)] @ '' 1,3k''"

definition grupo_renda :: "cell \<Rightarrow> cell" where
  "grupo_renda q = (if q = Txt ''A'' then Txt label_A
                    else if q = Txt ''B'' then Txt label_B
                    else Null)"

text \<open>
  \<^verbatim>\<open>extrair_processar\<close>. The query names the tables \<^verbatim>\<open>participantes\<close> and \<^verbatim>\<open>resultados\<close>;
  the function takes the engine only, not the configuration. The two derived series are
  computed from the frame they are assigned to, so they have its index and the
  assignment is row by row.
\<close>

definition extrair_processar :: "world \<Rightarrow> (error + dataframe) \<times> world" where
  "extrair_processar w =
     (case read_sql_query ''participantes'' ''resultados'' w of
        (Inl e, w1) \<Rightarrow> (Inl e, w1)
      | (Inr df0, w1) \<Rightarrow>
          (let df = dropna col_notas df0
           in case row_wise (mean_axis1 col_objetivas) (rows df) of
                Inl e \<Rightarrow> (Inl e, w1)
              | Inr medias \<Rightarrow>
                  (let df1 = set_column df ''NOTA_MEDIA_OBJETIVA'' medias;
                       df2 = set_column df1 ''GRUPO_RENDA''
                               (map grupo_renda (column_values df1 ''Q006''))
                   in (Inr df2, w1))))"

section \<open>Configuration\<close>

text \<open>
  \<^verbatim>\<open>int(s)\<close> on a string: surrounding white space is ignored, a sign may come first, and
  the rest is decimal digits, where single underscores may stand between digits.
\<close>

definition is_space :: "char \<Rightarrow> bool" where
  "is_space c = (c \<in> set [CHR '' '', CHR 0x09, CHR 0x0A, CHR 0x0B, CHR 0x0C, CHR 0x0D])"

definition is_digit :: "char \<Rightarrow> bool" where
  "is_digit c = (48 \<le> (of_char c :: nat) \<and> (of_char c :: nat) \<le> 57)"

definition strip :: "string \<Rightarrow> string" where
  "strip s = rev (dropWhile is_space (rev (dropWhile is_space s)))"

fun digits :: "nat \<Rightarrow> bool \<Rightarrow> string \<Rightarrow> nat option" where
  "digits acc after_digit [] = (if after_digit then Some acc else None)"
| "digits acc after_digit (c # cs) =
     (if is_digit c then digits (10 * acc + (of_char c - 48)) True cs
      else if c = CHR ''_'' \<and> after_digit then digits acc False cs
      else None)"

definition py_int :: "string \<Rightarrow> int option" where
  "py_int s =
     (case strip s of
        [] \<Rightarrow> None
      | c # cs \<Rightarrow>
          if c = CHR ''-'' then map_option (\<lambda>n. - int n) (digits 0 False cs)
          else if c = CHR ''+'' then map_option int (digits 0 False cs)
          else map_option int (digits 0 False (c # cs)))"

text \<open>
  How a call ends: it returns, it raises, or it ends the process (\<^verbatim>\<open>sys.exit(status)\<close>).
\<close>

datatype 'a outcome = Returned 'a | Raised error | Exit int

text \<open>
  \<^verbatim>\<open>carregar_config\<close>, as a function of the environment. The dictionary is built entry by
  entry: \<^verbatim>\<open>int(os.getenv('DB_PORT'))\<close> raises a \<^verbatim>\<open>TypeError\<close> when the variable is unset
  and a \<^verbatim>\<open>ValueError\<close> when it is not a number. The only check that follows is
  \<^verbatim>\<open>if not config['DB_PASS']\<close>, true for an unset and for an empty password.
\<close>

definition carregar_config :: "(string \<rightharpoonup> string) \<Rightarrow> string option config outcome" where
  "carregar_config getenv =
     (case getenv ''DB_PORT'' of
        None \<Rightarrow> Raised TypeError
      | Some s \<Rightarrow>
          (case py_int s of
             None \<Rightarrow> Raised ValueError
           | Some port \<Rightarrow>
               (let config = \<lparr>DB_HOST = getenv ''DB_HOST'',
                              DB_PORT = port,
                              DB_NAME = getenv ''DB_NAME'',
                              DB_USER = getenv ''DB_USER'',
                              DB_PASS = getenv ''DB_PASS'',
                              ARQUIVO_PARTICIPANTES = getenv ''ARQUIVO_PARTICIPANTES'',
                              ARQUIVO_RESULTADOS = getenv ''ARQUIVO_RESULTADOS'',
                              TABELA_PARTICIPANTES = getenv ''TABELA_PARTICIPANTES'',
                              TABELA_RESULTADOS = getenv ''TABELA_RESULTADOS''\<rparr>
                in if DB_PASS config = None \<or> DB_PASS config = Some [] then Exit 1
                   else Returned config)))"

section \<open>Example inputs\<close>

text \<open>
  A participant file and a result file of three rows each, row-aligned: the income codes
  are A, C and B, and every result row has its five scores. The configuration names the
  two files, and names the tables as the query of \<^verbatim>\<open>extrair_processar\<close> does.
\<close>

definition participante :: "real \<Rightarrow> string \<Rightarrow> row" where
  "participante n q = [(''NU_INSCRICAO'', Num n), (''Q006'', Txt q), (''TP_SEXO'', Txt ''F''),
                       (''TP_COR_RACA'', Num 1), (''SG_UF_PROVA'', Txt ''SP'')]"

definition resultado :: "cell \<Rightarrow> row" where
  "resultado cn = [(''NU_NOTA_CN'', cn), (''NU_NOTA_CH'', Num 500), (''NU_NOTA_LC'', Num 600),
                   (''NU_NOTA_MT'', Num 700), (''NU_NOTA_REDACAO'', Num 900)]"

definition ex_participantes :: dataframe where
  "ex_participantes =
     \<lparr>columns = [''NU_INSCRICAO'', ''Q006'', ''TP_SEXO'', ''TP_COR_RACA'', ''SG_UF_PROVA''],
      rows = [participante 1 ''A'', participante 2 ''C'', participante 3 ''B'']\<rparr>"

definition ex_resultados :: dataframe where
  "ex_resultados =
     \<lparr>columns = col_notas,
      rows = [resultado (Num 400), resultado (Num 450), resultado (Num 480)]\<rparr>"

definition ex_config :: "string config" where
  "ex_config = \<lparr>DB_HOST = ''localhost'', DB_PORT = 5432, DB_NAME = ''enem'',
                DB_USER = ''postgres'', DB_PASS = ''segredo'',
                ARQUIVO_PARTICIPANTES = ''participantes.csv'',
                ARQUIVO_RESULTADOS = ''resultados.csv'',
                TABELA_PARTICIPANTES = ''participantes'',
                TABELA_RESULTADOS = ''resultados''\<rparr>"

definition ex_files :: "string \<rightharpoonup> dataframe" where
  "ex_files = [''participantes.csv'' \<mapsto> ex_participantes, ''resultados.csv'' \<mapsto> ex_resultados]"

definition ex_world :: world where
  "ex_world = \<lparr>files = ex_files, tables = Map.empty, column_types = Map.empty, trace = []\<rparr>"

text \<open>
  A result file with a header and no rows, and one with a single row; each in a world
  with the three-row participant file and an empty store.
\<close>

definition ex_sem_resultados :: dataframe where
  "ex_sem_resultados = \<lparr>columns = col_notas, rows = []\<rparr>"

definition ex_um_resultado :: dataframe where
  "ex_um_resultado = \<lparr>columns = col_notas, rows = [resultado (Num 400)]\<rparr>"

definition ex_world_vazio :: world where
  "ex_world_vazio =
     \<lparr>files = [''participantes.csv'' \<mapsto> ex_participantes, ''resultados.csv'' \<mapsto> ex_sem_resultados],
      tables = Map.empty, column_types = Map.empty, trace = []\<rparr>"

definition ex_world_curto :: world where
  "ex_world_curto =
     \<lparr>files = [''participantes.csv'' \<mapsto> ex_participantes, ''resultados.csv'' \<mapsto> ex_um_resultado],
      tables = Map.empty, column_types = Map.empty, trace = []\<rparr>"

text \<open>
  The result table as a load of the two example files leaves it, and three stores: one with
  both tables, one with the participant table only, one with the result table only.
\<close>

definition ex_tabela_resultados :: dataframe where
  "ex_tabela_resultados =
     set_column ex_resultados ''NU_INSCRICAO'' (column_values ex_participantes ''NU_INSCRICAO'')"

definition ex_world_carregado :: world where
  "ex_world_carregado =
     \<lparr>files = ex_files,
      tables = [''participantes'' \<mapsto> ex_participantes, ''resultados'' \<mapsto> ex_tabela_resultados],
      column_types = [''participantes'' \<mapsto> infer_types ex_participantes,
                      ''resultados'' \<mapsto> infer_types ex_tabela_resultados],
      trace = []\<rparr>"

definition ex_world_p :: world where
  "ex_world_p = \<lparr>files = ex_files, tables = [''participantes'' \<mapsto> ex_participantes],
                 column_types = [''participantes'' \<mapsto> infer_types ex_participantes],
                 trace = []\<rparr>"

definition ex_world_r :: world where
  "ex_world_r = \<lparr>files = ex_files, tables = [''resultados'' \<mapsto> ex_tabela_resultados],
                 column_types = [''resultados'' \<mapsto> infer_types ex_tabela_resultados],
                 trace = []\<rparr>"

text \<open>
  A store for the analysis: four participants (income codes A, C, B, A) and their four
  result rows, the last without an essay score; and the frame the Extractor/Transformer
  makes of it.
\<close>

definition nota :: "real \<Rightarrow> cell \<Rightarrow> cell \<Rightarrow> row" where
  "nota n cn red = [(''NU_NOTA_CN'', cn), (''NU_NOTA_CH'', Num 500), (''NU_NOTA_LC'', Num 600),
                    (''NU_NOTA_MT'', Num 700), (''NU_NOTA_REDACAO'', red), (''NU_INSCRICAO'', Num n)]"

definition ex_tabela_p4 :: dataframe where
  "ex_tabela_p4 =
     \<lparr>columns = [''NU_INSCRICAO'', ''Q006'', ''TP_SEXO'', ''TP_COR_RACA'', ''SG_UF_PROVA''],
      rows = [participante 1 ''A'', participante 2 ''C'', participante 3 ''B'', participante 4 ''A'']\<rparr>"

definition ex_tabela_r4 :: dataframe where
  "ex_tabela_r4 =
     \<lparr>columns = col_notas @ [''NU_INSCRICAO''],
      rows = [nota 1 (Num 400) (Num 900), nota 2 (Num 450) (Num 800),
              nota 3 (Num 480) (Num 700), nota 4 (Num 500) Null]\<rparr>"

definition ex_world_analise :: world where
  "ex_world_analise =
     \<lparr>files = Map.empty,
      tables = [''participantes'' \<mapsto> ex_tabela_p4, ''resultados'' \<mapsto> ex_tabela_r4],
      column_types = [''participantes'' \<mapsto> infer_types ex_tabela_p4,
                      ''resultados'' \<mapsto> infer_types ex_tabela_r4],
      trace = []\<rparr>"

definition analise :: "string \<Rightarrow> real \<Rightarrow> real \<Rightarrow> real \<Rightarrow> string \<Rightarrow> row" where
  "analise q cn red media grupo =
     [(''Q006'', Txt q), (''TP_SEXO'', Txt ''F''), (''TP_COR_RACA'', Num 1), (''SG_UF_PROVA'', Txt ''SP''),
      (''NU_NOTA_CN'', Num cn), (''NU_NOTA_CH'', Num 500), (''NU_NOTA_LC'', Num 600),
      (''NU_NOTA_MT'', Num 700), (''NU_NOTA_REDACAO'', Num red),
      (''NOTA_MEDIA_OBJETIVA'', Num media), (''GRUPO_RENDA'', Txt grupo)]"

definition ex_analise :: dataframe where
  "ex_analise =
     \<lparr>columns = col_participante @ col_notas @ [''NOTA_MEDIA_OBJETIVA'', ''GRUPO_RENDA''],
      rows = [analise ''A'' 400 900 550 label_A, analise ''B'' 480 700 570 label_B]\<rparr>"

text \<open>
  An environment in which all nine variables are set, and a configuration whose two table
  names differ from the names in the query of \<^verbatim>\<open>extrair_processar\<close>.
\<close>

definition ex_env :: "string \<rightharpoonup> string" where
  "ex_env = map_of [(''DB_HOST'', ''localhost''), (''DB_PORT'', ''5432''), (''DB_NAME'', ''enem''),
                    (''DB_USER'', ''postgres''), (''DB_PASS'', ''segredo''),
                    (''ARQUIVO_PARTICIPANTES'', ''participantes.csv''),
                    (''ARQUIVO_RESULTADOS'', ''resultados.csv''),
                    (''TABELA_PARTICIPANTES'', ''participantes''),
                    (''TABELA_RESULTADOS'', ''resultados'')]"

definition ex_config_renomeado :: "string config" where
  "ex_config_renomeado = ex_config\<lparr>TABELA_PARTICIPANTES := ''enem_participantes'',
                                     TABELA_RESULTADOS := ''enem_resultados''\<rparr>"



section \<open>Auxiliary notions\<close>

text \<open>A row of the analysis frame: a complete queried row with its two derived cells.\<close>

definition derived :: "row \<Rightarrow> cell \<Rightarrow> row" where
  "derived r m = AList.update ''GRUPO_RENDA''
                   (grupo_renda (cell_of (AList.update ''NOTA_MEDIA_OBJETIVA'' m r) ''Q006''))
                   (AList.update ''NOTA_MEDIA_OBJETIVA'' m r)"

section \<open>Properties of the Bulk Loader\<close>

lemma concat_chunk_rows: "0 < n \<Longrightarrow> concat (chunk_rows n xs) = xs"
proof (induction n xs rule: chunk_rows.induct)
  case (1 n xs)
  show ?case
  proof (cases "xs = []")
    case True
    then show ?thesis by (simp add: chunk_rows.simps)
  next
    case False
    with 1 have "concat (chunk_rows n (drop n xs)) = drop n xs" by simp
    with False 1(2) show ?thesis
      by (subst chunk_rows.simps) simp
  qed
qed

lemma chunk_rows_Nil_iff: "0 < n \<Longrightarrow> chunk_rows n xs = [] \<longleftrightarrow> xs = []"
  by (subst chunk_rows.simps) simp

lemma write_modes_append: "write_modes (es @ fs) = write_modes es @ write_modes fs"
  by (induction es rule: write_modes.induct) simp_all

lemma length_chunk_rows:
  "0 < n \<Longrightarrow> xs \<noteq> [] \<Longrightarrow> length (chunk_rows n xs) = Suc ((length xs - 1) div n)"
proof (induction n xs rule: chunk_rows.induct)
  case (1 n xs)
  show ?case
  proof (cases "drop n xs = []")
    case True
    then have "length xs \<le> n" by simp
    moreover from 1(3) have "0 < length xs" by simp
    ultimately have "(length xs - 1) div n = 0" using 1(2) by simp
    moreover have "chunk_rows n xs = [take n xs]"
      using True 1(2,3) by (subst chunk_rows.simps, subst chunk_rows.simps) simp
    ultimately show ?thesis by simp
  next
    case False
    then have gt: "n < length xs" by simp
    from 1 False have ih: "length (chunk_rows n (drop n xs)) = Suc ((length (drop n xs) - 1) div n)"
      by simp
    have "(length xs - 1) div n = Suc ((length xs - n - 1) div n)"
    proof -
      have "length xs - 1 = (length xs - n - 1) + n" using gt by simp
      then have "(length xs - 1) div n = ((length xs - n - 1) + n) div n" by simp
      also have "\<dots> = Suc ((length xs - n - 1) div n)" using 1(2) by simp
      finally show ?thesis .
    qed
    moreover have "chunk_rows n xs = take n xs # chunk_rows n (drop n xs)"
      using 1(2,3) by (subst chunk_rows.simps) simp
    ultimately show ?thesis using ih by simp
  qed
qed

lemma list_all_concat: "list_all (list_all P) xss = list_all P (concat xss)"
  by (induction xss) simp_all

lemma write_modes_appends:
  "write_modes (map (\<lambda>c. ToSql name Append (f c)) cs) = replicate (length cs) Append"
  by (induction cs) simp_all

lemma write_chunks_append:
  assumes "tables w name = Some t" and "column_types w name = Some ts"
    and "\<forall>c \<in> set cs. columns c = columns t" and "0 < i"
  shows "write_chunks name i cs w =
           (if list_all (fits ts) cs then Inr () else Inl DataError,
            w\<lparr>tables := (tables w)(name \<mapsto>
                           t\<lparr>rows := rows t @ concat (map rows (takeWhile (fits ts) cs))\<rparr>),
              trace := trace w @ map (\<lambda>c. ToSql name Append (length (rows c)))
                                     (takeWhile (fits ts) cs)\<rparr>)"
  using assms
proof (induction cs arbitrary: w t i)
  case Nil
  then have "(tables w)(name \<mapsto> t) = tables w" by (simp add: map_upd_triv)
  then show ?case by simp
next
  case (Cons c cs)
  show ?case
  proof (cases "fits ts c")
    case False
    have same: "(tables w)(name \<mapsto> t) = tables w"
      using Cons.prems(1) by (simp add: map_upd_triv)
    from False Cons.prems have "to_sql c name Append w = (Inl DataError, w)"
      by (simp add: to_sql_def types_of_def)
    with False Cons.prems(4) same show ?thesis by simp
  next
    case True
    let ?t' = "t\<lparr>rows := rows t @ rows c\<rparr>"
    let ?w' = "w\<lparr>tables := (tables w)(name \<mapsto> ?t'),
                   trace := trace w @ [ToSql name Append (length (rows c))]\<rparr>"
    let ?ok = "takeWhile (fits ts) cs"
    from True Cons.prems have step: "to_sql c name Append w = (Inr (), ?w')"
      by (simp add: to_sql_def types_of_def)
    have ih: "write_chunks name (i + 1) cs ?w' =
            (if list_all (fits ts) cs then Inr () else Inl DataError,
             ?w'\<lparr>tables := (tables ?w')(name \<mapsto> ?t'\<lparr>rows := rows ?t' @ concat (map rows ?ok)\<rparr>),
                  trace := trace ?w' @ map (\<lambda>c. ToSql name Append (length (rows c))) ?ok\<rparr>)"
      using Cons.prems by (intro Cons.IH) simp_all
    have eq: "?w'\<lparr>tables := (tables ?w')(name \<mapsto> ?t'\<lparr>rows := rows ?t' @ concat (map rows ?ok)\<rparr>),
                  trace := trace ?w' @ map (\<lambda>c. ToSql name Append (length (rows c))) ?ok\<rparr>
       = w\<lparr>tables := (tables w)(name \<mapsto> t\<lparr>rows := rows t @ concat (map rows (c # ?ok))\<rparr>),
            trace := trace w @ map (\<lambda>c. ToSql name Append (length (rows c))) (c # ?ok)\<rparr>"
      by simp
    have "write_chunks name i (c # cs) w = write_chunks name (i + 1) cs ?w'"
      using step Cons.prems(4) by simp
    then have lhs: "write_chunks name i (c # cs) w =
            (if list_all (fits ts) cs then Inr () else Inl DataError,
             w\<lparr>tables := (tables w)(name \<mapsto> t\<lparr>rows := rows t @ concat (map rows (c # ?ok))\<rparr>),
               trace := trace w @ map (\<lambda>c. ToSql name Append (length (rows c))) (c # ?ok)\<rparr>)"
      unfolding ih eq .
    show ?thesis unfolding lhs
      by (simp only: True list.pred_inject takeWhile.simps if_True simp_thms)
  qed
qed

lemma write_chunks_first:
  assumes "\<forall>c' \<in> set cs. columns c' = columns c"
  shows "write_chunks name 0 (c # cs) w =
           (if list_all (fits (infer_types c)) cs then Inr () else Inl DataError,
            w\<lparr>tables := (tables w)(name \<mapsto>
                           c\<lparr>rows := rows c @ concat (map rows (takeWhile (fits (infer_types c)) cs))\<rparr>),
              column_types := (column_types w)(name \<mapsto> infer_types c),
              trace := trace w @ ToSql name Replace (length (rows c))
                         # map (\<lambda>c. ToSql name Append (length (rows c)))
                               (takeWhile (fits (infer_types c)) cs)\<rparr>)"
proof -
  let ?ts = "infer_types c"
  let ?ok = "takeWhile (fits ?ts) cs"
  let ?w' = "w\<lparr>tables := (tables w)(name \<mapsto> c),
                 column_types := (column_types w)(name \<mapsto> ?ts),
                 trace := trace w @ [ToSql name Replace (length (rows c))]\<rparr>"
  have step: "write_chunks name 0 (c # cs) w = write_chunks name 1 cs ?w'"
    by (simp add: to_sql_def)
  have rest: "write_chunks name 1 cs ?w' =
          (if list_all (fits ?ts) cs then Inr () else Inl DataError,
           ?w'\<lparr>tables := (tables ?w')(name \<mapsto> c\<lparr>rows := rows c @ concat (map rows ?ok)\<rparr>),
                trace := trace ?w' @ map (\<lambda>c. ToSql name Append (length (rows c))) ?ok\<rparr>)"
    using assms by (intro write_chunks_append) simp_all
  have eq: "?w'\<lparr>tables := (tables ?w')(name \<mapsto> c\<lparr>rows := rows c @ concat (map rows ?ok)\<rparr>),
                trace := trace ?w' @ map (\<lambda>c. ToSql name Append (length (rows c))) ?ok\<rparr>
     = w\<lparr>tables := (tables w)(name \<mapsto> c\<lparr>rows := rows c @ concat (map rows ?ok)\<rparr>),
          column_types := (column_types w)(name \<mapsto> ?ts),
          trace := trace w @ ToSql name Replace (length (rows c))
                     # map (\<lambda>c. ToSql name Append (length (rows c))) ?ok\<rparr>"
    by simp
  show ?thesis unfolding step rest eq ..
qed

text \<open>
  What a run of the Bulk Loader on an existing file comes to: the rows kept in the table
  are a prefix of the file, all of it exactly when the later batches fit the column types
  of the first.
\<close>

lemma carregar_tabela_csv_result:
  assumes csv: "files w caminho_csv = Some df" and size: "1 \<le> chunksize"
  shows "\<exists>kept evs.
           carregar_tabela_csv nome_tabela caminho_csv chunksize w
             = (if types_fit chunksize df then Inr () else Inl DataError,
                w\<lparr>tables := (tables w)(nome_tabela \<mapsto> \<lparr>columns = columns df, rows = kept\<rparr>),
                  column_types := (column_types w)(nome_tabela \<mapsto>
                     infer_types \<lparr>columns = columns df, rows = take chunksize (rows df)\<rparr>),
                  trace := trace w @ OpenCsv caminho_csv # evs\<rparr>)
           \<and> write_modes evs = Replace # replicate (length evs - 1) Append
           \<and> (types_fit chunksize df \<longrightarrow>
                 kept = rows df \<and> length evs = Suc ((length (rows df) - 1) div chunksize))
           \<and> (\<not> types_fit chunksize df \<longrightarrow>
                 chunksize \<le> length kept \<and> (\<exists>rest. rest \<noteq> [] \<and> kept @ rest = rows df))"
proof -
  let ?mk = "\<lambda>rs. \<lparr>columns = columns df, rows = rs\<rparr>"
  let ?w1 = "w\<lparr>trace := trace w @ [OpenCsv caminho_csv]\<rparr>"
  define cs where "cs = map ?mk (chunk_rows chunksize (drop chunksize (rows df)))"
  define c where "c = ?mk (take chunksize (rows df))"
  define ts where "ts = infer_types c"
  define ok where "ok = takeWhile (fits ts) cs"
  define kept where "kept = rows c @ concat (map rows ok)"
  define evs where "evs = ToSql nome_tabela Replace (length (rows c))
                            # map (\<lambda>c. ToSql nome_tabela Append (length (rows c))) ok"
  have pos: "0 < chunksize" using size by simp
  have chunks: "(if rows df = [] then [df] else map ?mk (chunk_rows chunksize (rows df))) = c # cs"
  proof (cases "rows df = []")
    case True
    then have "chunk_rows chunksize (drop chunksize (rows df)) = []"
      using pos by (simp add: chunk_rows_Nil_iff)
    with True show ?thesis by (simp add: c_def cs_def)
  next
    case False
    then have "chunk_rows chunksize (rows df)
                 = take chunksize (rows df) # chunk_rows chunksize (drop chunksize (rows df))"
      using pos by (subst chunk_rows.simps) simp
    with False show ?thesis by (simp add: c_def cs_def)
  qed
  have cols: "\<forall>c' \<in> set cs. columns c' = columns c"
    by (auto simp: c_def cs_def)
  have rows_cs: "concat (map rows cs) = drop chunksize (rows df)"
    using pos by (simp add: cs_def comp_def concat_chunk_rows)
  have all_rows: "rows c @ concat (map rows cs) = rows df"
    by (simp add: rows_cs c_def)
  have fit: "list_all (fits ts) cs = types_fit chunksize df"
  proof -
    have "list_all (fits ts) cs
            = list_all (list_all (row_fits ts (columns df))) (chunk_rows chunksize (drop chunksize (rows df)))"
      by (simp add: cs_def list_all_iff fits_def)
    also have "\<dots> = list_all (row_fits ts (columns df)) (drop chunksize (rows df))"
      using pos by (simp add: list_all_concat concat_chunk_rows)
    finally show ?thesis by (simp add: types_fit_def fits_def ts_def c_def)
  qed
  have run: "carregar_tabela_csv nome_tabela caminho_csv chunksize w
               = (if types_fit chunksize df then Inr () else Inl DataError,
                  w\<lparr>tables := (tables w)(nome_tabela \<mapsto> ?mk kept),
                    column_types := (column_types w)(nome_tabela \<mapsto> ts),
                    trace := trace w @ OpenCsv caminho_csv # evs\<rparr>)"
  proof -
    have "c\<lparr>rows := kept\<rparr> = ?mk kept" by (simp add: c_def)
    then show ?thesis
      using csv pos chunks write_chunks_first [OF cols, of nome_tabela ?w1]
      by (simp add: carregar_tabela_csv_def path_exists_def read_csv_chunks_def
          fit ts_def [symmetric] ok_def [symmetric] kept_def [symmetric] evs_def)
  qed
  have modes: "write_modes evs = Replace # replicate (length evs - 1) Append"
    by (simp add: evs_def write_modes_appends)
  have good: "kept = rows df \<and> length evs = Suc ((length (rows df) - 1) div chunksize)"
    if "types_fit chunksize df"
  proof -
    from that fit have all: "list_all (fits ts) cs" by simp
    then have ok: "ok = cs" by (simp add: ok_def list_all_iff takeWhile_eq_all_conv)
    have len_cs: "length cs = (length (rows df) - 1) div chunksize"
    proof (cases "drop chunksize (rows df) = []")
      case True
      then have "length (rows df) - 1 < chunksize" using pos by simp
      moreover have "cs = []" using True pos by (simp add: cs_def chunk_rows_Nil_iff)
      ultimately show ?thesis by simp
    next
      case False
      then have gt: "chunksize < length (rows df)" by simp
      have "length (rows df) - 1 = (length (rows df) - chunksize - 1) + chunksize" using gt by simp
      then have "(length (rows df) - 1) div chunksize
                   = ((length (rows df) - chunksize - 1) + chunksize) div chunksize" by simp
      also have "\<dots> = Suc ((length (rows df) - chunksize - 1) div chunksize)" using pos by simp
      finally show ?thesis using False pos by (simp add: cs_def length_chunk_rows)
    qed
    show ?thesis by (simp add: kept_def ok all_rows evs_def len_cs)
  qed
  have bad: "chunksize \<le> length kept \<and> (\<exists>rest. rest \<noteq> [] \<and> kept @ rest = rows df)"
    if "\<not> types_fit chunksize df"
  proof -
    from that fit have some: "\<not> list_all (fits ts) cs" by simp
    then have "cs \<noteq> []" by auto
    then have "drop chunksize (rows df) \<noteq> []" using pos by (simp add: cs_def chunk_rows_Nil_iff)
    then have "length (rows c) = chunksize" by (simp add: c_def)
    then have long: "chunksize \<le> length kept" by (simp add: kept_def)
    let ?rest = "concat (map rows (dropWhile (fits ts) cs))"
    from some obtain h where h: "h \<in> set (dropWhile (fits ts) cs)" and "\<not> fits ts h"
      by (metis list_all_iff dropWhile_eq_Nil_conv hd_dropWhile list.set_sel(1))
    then have "rows h \<noteq> []" by (auto simp: fits_def)
    with h have ne: "?rest \<noteq> []" by auto
    have "concat (map rows ok) @ ?rest = concat (map rows cs)"
      unfolding ok_def by (simp flip: concat_append map_append)
    then have "kept @ ?rest = rows df" using all_rows by (simp add: kept_def)
    with ne long show ?thesis by blast
  qed
  show ?thesis
    by (rule exI [of _ kept], rule exI [of _ evs])
       (use run modes good bad in \<open>simp add: ts_def c_def\<close>)
qed

lemma types_fit_single_batch: "length (rows df) \<le> n \<Longrightarrow> types_fit n df"
  by (simp add: types_fit_def fits_def)

lemma carregar_tabela_csv_run:
  assumes csv: "files w caminho_csv = Some df" and size: "1 \<le> chunksize"
    and fit: "types_fit chunksize df"
  shows "\<exists>evs. carregar_tabela_csv nome_tabela caminho_csv chunksize w
                  = (Inr (), w\<lparr>tables := (tables w)(nome_tabela \<mapsto> df),
                               column_types := (column_types w)(nome_tabela \<mapsto>
                                  infer_types \<lparr>columns = columns df, rows = take chunksize (rows df)\<rparr>),
                               trace := trace w @ OpenCsv caminho_csv # evs\<rparr>)
               \<and> write_modes evs
                   = Replace # replicate ((length (rows df) - 1) div chunksize) Append"
proof -
  from carregar_tabela_csv_result [OF csv size, of nome_tabela] fit
  obtain kept evs where
    run: "carregar_tabela_csv nome_tabela caminho_csv chunksize w
             = (Inr (),
                w\<lparr>tables := (tables w)(nome_tabela \<mapsto> \<lparr>columns = columns df, rows = kept\<rparr>),
                  column_types := (column_types w)(nome_tabela \<mapsto>
                     infer_types \<lparr>columns = columns df, rows = take chunksize (rows df)\<rparr>),
                  trace := trace w @ OpenCsv caminho_csv # evs\<rparr>)"
    and modes: "write_modes evs = Replace # replicate (length evs - 1) Append"
    and kept: "kept = rows df"
    and len: "length evs = Suc ((length (rows df) - 1) div chunksize)"
    by auto
  have "\<lparr>columns = columns df, rows = kept\<rparr> = df" by (simp add: kept)
  with run modes len show ?thesis by (intro exI [of _ evs]) simp
qed





section \<open>Properties of the Join Loader\<close>

lemma cell_of_update: "cell_of (AList.update c v r) c' = (if c' = c then v else cell_of r c')"
  by (simp add: cell_of_def update_conv')

lemma map_of_update_other: "c' \<noteq> c \<Longrightarrow> map_of (AList.update c v r) c' = map_of r c'"
  by (simp add: update_conv')

lemma map_of_usecols:
  "map_of (filter (\<lambda>kv. P (fst kv)) r) c = (if P c then map_of r c else None)"
  by (induction r) auto

lemma length_assign: "length (assign c s rs) = length rs"
  by (induction c s rs rule: assign.induct) simp_all

lemma nth_assign:
  "i < length rs \<Longrightarrow>
     assign c s rs ! i = AList.update c (if i < length s then s ! i else Null) (rs ! i)"
proof (induction c s rs arbitrary: i rule: assign.induct)
  case (1 c s)
  then show ?case by simp
next
  case (2 c r rs)
  then show ?case by (cases i) simp_all
next
  case (3 c v s r rs)
  then show ?case by (cases i) simp_all
qed

lemma rows_set_column_aligned:
  "rows df \<noteq> [] \<or> s = [] \<Longrightarrow> rows (set_column df c s) = assign c s (rows df)"
  by (auto simp: set_column_def)

lemma rows_set_column_empty:
  "rows df = [] \<Longrightarrow> s \<noteq> [] \<Longrightarrow>
     rows (set_column df c s) = assign c s (map (\<lambda>_. map (\<lambda>k. (k, Null)) (columns df)) s)"
  by (simp add: set_column_def)

lemma carregar_tabela_resultados_run:
  assumes res: "files w (ARQUIVO_RESULTADOS config) = Some dr"
    and par: "files w (ARQUIVO_PARTICIPANTES config) = Some dp"
    and col: "''NU_INSCRICAO'' \<in> set (columns dp)"
    and size: "1 \<le> chunksize"
  shows "carregar_tabela_resultados config chunksize w =
           (Inr (), w\<lparr>tables := (tables w)(TABELA_RESULTADOS config \<mapsto>
                                    set_column dr ''NU_INSCRICAO'' (column_values dp ''NU_INSCRICAO'')),
                        column_types := (column_types w)(TABELA_RESULTADOS config \<mapsto>
                                    infer_types (set_column dr ''NU_INSCRICAO''
                                                   (column_values dp ''NU_INSCRICAO''))),
                        trace := trace w @ [OpenCsv (ARQUIVO_PARTICIPANTES config),
                                            OpenCsv (ARQUIVO_RESULTADOS config),
                                            ToSql (TABELA_RESULTADOS config) Replace
                                              (length (rows (set_column dr ''NU_INSCRICAO''
                                                 (column_values dp ''NU_INSCRICAO''))))]\<rparr>)"
proof -
  let ?usecols = "\<lparr>columns = filter (\<lambda>c. c \<in> set [''NU_INSCRICAO'']) (columns dp),
                   rows = map (filter (\<lambda>kv. fst kv \<in> set [''NU_INSCRICAO''])) (rows dp)\<rparr>"
  let ?w1 = "w\<lparr>trace := trace w @ [OpenCsv (ARQUIVO_PARTICIPANTES config)]\<rparr>"
  let ?w2 = "?w1\<lparr>trace := trace ?w1 @ [OpenCsv (ARQUIVO_RESULTADOS config)]\<rparr>"
  let ?df = "set_column dr ''NU_INSCRICAO'' (column_values dp ''NU_INSCRICAO'')"
  have r1: "read_csv (ARQUIVO_PARTICIPANTES config) (Some [''NU_INSCRICAO'']) w = (Inr ?usecols, ?w1)"
    using par col by (simp add: read_csv_def)
  have r2: "read_csv (ARQUIVO_RESULTADOS config) None ?w1 = (Inr dr, ?w2)"
    using res by (simp add: read_csv_def)
  have series: "column_values ?usecols ''NU_INSCRICAO'' = column_values dp ''NU_INSCRICAO''"
    by (simp add: column_values_def cell_of_def map_of_usecols [of "\<lambda>k. k = ''NU_INSCRICAO''"])
  have pos: "0 < chunksize" using size by simp
  have batches: "?df\<lparr>rows := concat (chunk_rows chunksize (rows ?df))\<rparr> = ?df"
    using pos by (simp add: concat_chunk_rows)
  have w: "to_sql_batched ?df (TABELA_RESULTADOS config) chunksize v =
             to_sql ?df (TABELA_RESULTADOS config) Replace v" for v
    using pos batches by (simp add: to_sql_batched_def)
  have "carregar_tabela_resultados config chunksize w
          = to_sql ?df (TABELA_RESULTADOS config) Replace ?w2"
    using res by (simp add: carregar_tabela_resultados_def path_exists_def r1 r2 series w
        del: set_simps)
  then show ?thesis by (simp add: to_sql_def)
qed

text \<open>
  Claim C2. When both files exist, the participant file has a registration-number column
  and the two files have the same number of rows, the Join Loader returns normally and
  replaces the target table by the result rows, where row \<open>i\<close> carries the registration
  number of row \<open>i\<close> of the participant file and is otherwise row \<open>i\<close> of the result
  file. The alignment is by position alone: no value of any row is compared.
\<close>

theorem carregar_tabela_resultados_positional:
  assumes res: "files w (ARQUIVO_RESULTADOS config) = Some dr"
    and par: "files w (ARQUIVO_PARTICIPANTES config) = Some dp"
    and col: "''NU_INSCRICAO'' \<in> set (columns dp)"
    and size: "1 \<le> chunksize"
    and same: "length (rows dp) = length (rows dr)"
  shows "\<exists>w' t. carregar_tabela_resultados config chunksize w = (Inr (), w')
           \<and> tables w' = (tables w)(TABELA_RESULTADOS config \<mapsto> t)
           \<and> length (rows t) = length (rows dr)
           \<and> (\<forall>i < length (rows dr).
                 cell_of (rows t ! i) ''NU_INSCRICAO'' = cell_of (rows dp ! i) ''NU_INSCRICAO''
                 \<and> (\<forall>c. c \<noteq> ''NU_INSCRICAO'' \<longrightarrow> map_of (rows t ! i) c = map_of (rows dr ! i) c))"
proof -
  let ?s = "column_values dp ''NU_INSCRICAO''"
  let ?t = "set_column dr ''NU_INSCRICAO'' ?s"
  have len_s: "length ?s = length (rows dr)" using same by (simp add: column_values_def)
  then have "rows dr \<noteq> [] \<or> ?s = []" by auto
  then have rows_t: "rows ?t = assign ''NU_INSCRICAO'' ?s (rows dr)"
    by (rule rows_set_column_aligned)
  have len: "length (rows ?t) = length (rows dr)" by (simp add: rows_t length_assign)
  have align: "\<forall>i < length (rows dr).
                 cell_of (rows ?t ! i) ''NU_INSCRICAO'' = cell_of (rows dp ! i) ''NU_INSCRICAO''
                 \<and> (\<forall>c. c \<noteq> ''NU_INSCRICAO'' \<longrightarrow> map_of (rows ?t ! i) c = map_of (rows dr ! i) c)"
  proof (intro allI impI conjI)
    fix i assume i: "i < length (rows dr)"
    then have nth: "rows ?t ! i = AList.update ''NU_INSCRICAO'' (?s ! i) (rows dr ! i)"
      using len_s by (simp add: rows_t nth_assign)
    have "?s ! i = cell_of (rows dp ! i) ''NU_INSCRICAO''"
      using i same by (simp add: column_values_def)
    then show "cell_of (rows ?t ! i) ''NU_INSCRICAO'' = cell_of (rows dp ! i) ''NU_INSCRICAO''"
      by (simp add: nth cell_of_update)
    fix c :: string assume "c \<noteq> ''NU_INSCRICAO''"
    then show "map_of (rows ?t ! i) c = map_of (rows dr ! i) c"
      by (simp add: nth map_of_update_other)
  qed
  let ?w' = "w\<lparr>tables := (tables w)(TABELA_RESULTADOS config \<mapsto> ?t),
                 column_types := (column_types w)(TABELA_RESULTADOS config \<mapsto> infer_types ?t),
                 trace := trace w @ [OpenCsv (ARQUIVO_PARTICIPANTES config),
                                     OpenCsv (ARQUIVO_RESULTADOS config),
                                     ToSql (TABELA_RESULTADOS config) Replace (length (rows ?t))]\<rparr>"
  have run: "carregar_tabela_resultados config chunksize w = (Inr (), ?w')"
    by (rule carregar_tabela_resultados_run [OF res par col size])
  have tab: "tables ?w' = (tables w)(TABELA_RESULTADOS config \<mapsto> ?t)" by simp
  from run tab len align show ?thesis by blast
qed

theorem carregar_tabela_resultados_positional_witness:
  "files ex_world (ARQUIVO_RESULTADOS ex_config) = Some ex_resultados
   \<and> files ex_world (ARQUIVO_PARTICIPANTES ex_config) = Some ex_participantes
   \<and> ''NU_INSCRICAO'' \<in> set (columns ex_participantes)
   \<and> (1::nat) \<le> 50000
   \<and> length (rows ex_participantes) = length (rows ex_resultados)
   \<and> (\<exists>w' t. carregar_tabela_resultados ex_config 50000 ex_world = (Inr (), w')
          \<and> tables w' = (tables ex_world)(''resultados'' \<mapsto> t)
          \<and> length (rows t) = 3
          \<and> cell_of (rows t ! 0) ''NU_INSCRICAO'' = Num 1
          \<and> cell_of (rows t ! 1) ''NU_INSCRICAO'' = Num 2
          \<and> cell_of (rows t ! 2) ''NU_INSCRICAO'' = Num 3
          \<and> cell_of (rows t ! 2) ''NU_NOTA_CN'' = Num 480)"
proof -
  have h1: "files ex_world (ARQUIVO_RESULTADOS ex_config) = Some ex_resultados"
    by (simp add: ex_world_def ex_files_def ex_config_def)
  have h2: "files ex_world (ARQUIVO_PARTICIPANTES ex_config) = Some ex_participantes"
    by (simp add: ex_world_def ex_files_def ex_config_def)
  have h3: "''NU_INSCRICAO'' \<in> set (columns ex_participantes)"
    by (simp add: ex_participantes_def)
  have h4: "(1::nat) \<le> 50000" by simp
  have h5: "length (rows ex_participantes) = length (rows ex_resultados)"
    by (simp add: ex_participantes_def ex_resultados_def)
  have n: "length (rows ex_resultados) = 3" by (simp add: ex_resultados_def)
  from carregar_tabela_resultados_positional [OF h1 h2 h3 h4 h5]
  obtain w' t where run: "carregar_tabela_resultados ex_config 50000 ex_world = (Inr (), w')"
    and tab: "tables w' = (tables ex_world)(TABELA_RESULTADOS ex_config \<mapsto> t)"
    and len: "length (rows t) = length (rows ex_resultados)"
    and pos: "\<forall>i < length (rows ex_resultados).
                 cell_of (rows t ! i) ''NU_INSCRICAO'' = cell_of (rows ex_participantes ! i) ''NU_INSCRICAO''
                 \<and> (\<forall>c. c \<noteq> ''NU_INSCRICAO'' \<longrightarrow> map_of (rows t ! i) c = map_of (rows ex_resultados ! i) c)"
    by blast
  have p0: "cell_of (rows t ! 0) ''NU_INSCRICAO'' = Num 1"
    using pos [rule_format, of 0] by (simp add: n ex_participantes_def participante_def cell_of_def)
  have p1: "cell_of (rows t ! 1) ''NU_INSCRICAO'' = Num 2"
    using pos [rule_format, of 1] by (simp add: n ex_participantes_def participante_def cell_of_def)
  have p2: "cell_of (rows t ! 2) ''NU_INSCRICAO'' = Num 3"
    using pos [rule_format, of 2] by (simp add: n ex_participantes_def participante_def cell_of_def)
  have "map_of (rows t ! 2) ''NU_NOTA_CN'' = map_of (rows ex_resultados ! 2) ''NU_NOTA_CN''"
    using pos [rule_format, of 2] by (simp add: n)
  then have p3: "cell_of (rows t ! 2) ''NU_NOTA_CN'' = Num 480"
    by (simp add: cell_of_def ex_resultados_def resultado_def)
  have tab': "tables w' = (tables ex_world)(''resultados'' \<mapsto> t)"
    using tab by (simp add: ex_config_def)
  from h1 h2 h3 h4 h5 run tab' len n p0 p1 p2 p3 show ?thesis by auto
qed

lemma column_values_set_column:
  "length (rows (set_column df c s)) = (if rows df = [] then length s else length (rows df))"
  by (simp add: set_column_def length_assign)

text \<open>
  Claim C10, as the code has it. When the two files exist, the participant file has its
  registration-number column \<^verbatim>\<open>NU_INSCRICAO\<close>, and the files differ in their number of
  rows, the Join Loader still returns normally and replaces the target table. If the
  result file has more rows, the rows beyond the participant file get a null registration
  number. If the participant file has more rows and the result file has at least one,
  the surplus registration numbers are dropped. If the result file has no rows, nothing
  is dropped: the table gets one row for every registration number, null in every
  result column.
\<close>

theorem carregar_tabela_resultados_unequal_counts:
  assumes res: "files w (ARQUIVO_RESULTADOS config) = Some dr"
    and par: "files w (ARQUIVO_PARTICIPANTES config) = Some dp"
    and col: "''NU_INSCRICAO'' \<in> set (columns dp)"
    and size: "1 \<le> chunksize"
    and differ: "length (rows dp) \<noteq> length (rows dr)"
  shows "\<exists>w' t. carregar_tabela_resultados config chunksize w = (Inr (), w')
           \<and> tables w' = (tables w)(TABELA_RESULTADOS config \<mapsto> t)
           \<and> (length (rows dp) < length (rows dr) \<longrightarrow>
                 length (rows t) = length (rows dr)
                 \<and> (\<forall>i < length (rows dp).
                       cell_of (rows t ! i) ''NU_INSCRICAO'' = cell_of (rows dp ! i) ''NU_INSCRICAO'')
                 \<and> (\<forall>i. length (rows dp) \<le> i \<and> i < length (rows dr) \<longrightarrow>
                       cell_of (rows t ! i) ''NU_INSCRICAO'' = Null))
           \<and> (length (rows dr) < length (rows dp) \<and> rows dr \<noteq> [] \<longrightarrow>
                 length (rows t) = length (rows dr)
                 \<and> (\<forall>i < length (rows dr).
                       cell_of (rows t ! i) ''NU_INSCRICAO'' = cell_of (rows dp ! i) ''NU_INSCRICAO''))
           \<and> (rows dr = [] \<longrightarrow>
                 length (rows t) = length (rows dp)
                 \<and> (\<forall>i < length (rows dp).
                       cell_of (rows t ! i) ''NU_INSCRICAO'' = cell_of (rows dp ! i) ''NU_INSCRICAO''
                       \<and> (\<forall>c. c \<noteq> ''NU_INSCRICAO'' \<longrightarrow> cell_of (rows t ! i) c = Null)))"
proof -
  let ?s = "column_values dp ''NU_INSCRICAO''"
  let ?t = "set_column dr ''NU_INSCRICAO'' ?s"
  let ?w' = "w\<lparr>tables := (tables w)(TABELA_RESULTADOS config \<mapsto> ?t),
                 column_types := (column_types w)(TABELA_RESULTADOS config \<mapsto> infer_types ?t),
                 trace := trace w @ [OpenCsv (ARQUIVO_PARTICIPANTES config),
                                     OpenCsv (ARQUIVO_RESULTADOS config),
                                     ToSql (TABELA_RESULTADOS config) Replace (length (rows ?t))]\<rparr>"
  have run: "carregar_tabela_resultados config chunksize w = (Inr (), ?w')"
    by (rule carregar_tabela_resultados_run [OF res par col size])
  have tab: "tables ?w' = (tables w)(TABELA_RESULTADOS config \<mapsto> ?t)" by simp
  have len_s: "length ?s = length (rows dp)" by (simp add: column_values_def)
  have s_nth: "?s ! i = cell_of (rows dp ! i) ''NU_INSCRICAO''" if "i < length (rows dp)" for i
    using that by (simp add: column_values_def)
  have more: "length (rows ?t) = length (rows dr)
                 \<and> (\<forall>i < length (rows dp).
                       cell_of (rows ?t ! i) ''NU_INSCRICAO'' = cell_of (rows dp ! i) ''NU_INSCRICAO'')
                 \<and> (\<forall>i. length (rows dp) \<le> i \<and> i < length (rows dr) \<longrightarrow>
                       cell_of (rows ?t ! i) ''NU_INSCRICAO'' = Null)"
    if lt: "length (rows dp) < length (rows dr)"
  proof -
    from lt have "rows dr \<noteq> [] \<or> ?s = []" by auto
    then have rows_t: "rows ?t = assign ''NU_INSCRICAO'' ?s (rows dr)"
      by (rule rows_set_column_aligned)
    show ?thesis using lt
      by (auto simp: rows_t length_assign nth_assign cell_of_update len_s s_nth)
  qed
  have fewer: "length (rows ?t) = length (rows dr)
                 \<and> (\<forall>i < length (rows dr).
                       cell_of (rows ?t ! i) ''NU_INSCRICAO'' = cell_of (rows dp ! i) ''NU_INSCRICAO'')"
    if gt: "length (rows dr) < length (rows dp)" and ne: "rows dr \<noteq> []"
  proof -
    from ne have rows_t: "rows ?t = assign ''NU_INSCRICAO'' ?s (rows dr)"
      by (simp add: rows_set_column_aligned)
    show ?thesis using gt
      by (auto simp: rows_t length_assign nth_assign cell_of_update len_s s_nth)
  qed
  have none: "length (rows ?t) = length (rows dp)
                 \<and> (\<forall>i < length (rows dp).
                       cell_of (rows ?t ! i) ''NU_INSCRICAO'' = cell_of (rows dp ! i) ''NU_INSCRICAO''
                       \<and> (\<forall>c. c \<noteq> ''NU_INSCRICAO'' \<longrightarrow> cell_of (rows ?t ! i) c = Null))"
    if e: "rows dr = []"
  proof -
    from e differ have "?s \<noteq> []" by (auto simp: column_values_def)
    with e have rows_t: "rows ?t = assign ''NU_INSCRICAO'' ?s
                                      (map (\<lambda>_. map (\<lambda>k. (k, Null)) (columns dr)) ?s)"
      by (rule rows_set_column_empty)
    have blank: "cell_of (map (\<lambda>k. (k, Null)) ks) c = Null" for ks c
      by (induction ks) (simp_all add: cell_of_def)
    show ?thesis
      by (auto simp: rows_t length_assign nth_assign cell_of_update len_s s_nth blank)
  qed
  have c1: "length (rows dp) < length (rows dr) \<longrightarrow>
                 length (rows ?t) = length (rows dr)
                 \<and> (\<forall>i < length (rows dp).
                       cell_of (rows ?t ! i) ''NU_INSCRICAO'' = cell_of (rows dp ! i) ''NU_INSCRICAO'')
                 \<and> (\<forall>i. length (rows dp) \<le> i \<and> i < length (rows dr) \<longrightarrow>
                       cell_of (rows ?t ! i) ''NU_INSCRICAO'' = Null)"
    by (rule impI) (rule more)
  have c2: "length (rows dr) < length (rows dp) \<and> rows dr \<noteq> [] \<longrightarrow>
                 length (rows ?t) = length (rows dr)
                 \<and> (\<forall>i < length (rows dr).
                       cell_of (rows ?t ! i) ''NU_INSCRICAO'' = cell_of (rows dp ! i) ''NU_INSCRICAO'')"
    by (rule impI, erule conjE) (rule fewer)
  have c3: "rows dr = [] \<longrightarrow>
                 length (rows ?t) = length (rows dp)
                 \<and> (\<forall>i < length (rows dp).
                       cell_of (rows ?t ! i) ''NU_INSCRICAO'' = cell_of (rows dp ! i) ''NU_INSCRICAO''
                       \<and> (\<forall>c. c \<noteq> ''NU_INSCRICAO'' \<longrightarrow> cell_of (rows ?t ! i) c = Null))"
    by (rule impI) (rule none)
  show ?thesis
    by (rule exI [of _ ?w'], rule exI [of _ ?t]) (intro conjI run tab c1 c2 c3)
qed

theorem carregar_tabela_resultados_unequal_counts_witness:
  "files ex_world_curto (ARQUIVO_RESULTADOS ex_config) = Some ex_um_resultado
   \<and> files ex_world_curto (ARQUIVO_PARTICIPANTES ex_config) = Some ex_participantes
   \<and> ''NU_INSCRICAO'' \<in> set (columns ex_participantes)
   \<and> (1::nat) \<le> 50000
   \<and> length (rows ex_participantes) \<noteq> length (rows ex_um_resultado)
   \<and> length (rows ex_um_resultado) < length (rows ex_participantes)
   \<and> rows ex_um_resultado \<noteq> []
   \<and> (\<exists>w' t. carregar_tabela_resultados ex_config 50000 ex_world_curto = (Inr (), w')
          \<and> tables w' = (tables ex_world_curto)(''resultados'' \<mapsto> t)
          \<and> length (rows t) = 1
          \<and> cell_of (rows t ! 0) ''NU_INSCRICAO'' = Num 1)"
proof -
  have h1: "files ex_world_curto (ARQUIVO_RESULTADOS ex_config) = Some ex_um_resultado"
    by (simp add: ex_world_curto_def ex_config_def)
  have h2: "files ex_world_curto (ARQUIVO_PARTICIPANTES ex_config) = Some ex_participantes"
    by (simp add: ex_world_curto_def ex_config_def)
  have h3: "''NU_INSCRICAO'' \<in> set (columns ex_participantes)"
    by (simp add: ex_participantes_def)
  have h4: "(1::nat) \<le> 50000" by simp
  have h5: "length (rows ex_participantes) \<noteq> length (rows ex_um_resultado)"
    by (simp add: ex_participantes_def ex_um_resultado_def)
  have h6: "length (rows ex_um_resultado) < length (rows ex_participantes)"
    by (simp add: ex_participantes_def ex_um_resultado_def)
  have h7: "rows ex_um_resultado \<noteq> []" by (simp add: ex_um_resultado_def)
  have n: "length (rows ex_um_resultado) = 1" by (simp add: ex_um_resultado_def)
  obtain w' t where run: "carregar_tabela_resultados ex_config 50000 ex_world_curto = (Inr (), w')"
    and tab: "tables w' = (tables ex_world_curto)(TABELA_RESULTADOS ex_config \<mapsto> t)"
    and fewer: "length (rows ex_um_resultado) < length (rows ex_participantes)
                  \<and> rows ex_um_resultado \<noteq> [] \<longrightarrow>
                length (rows t) = length (rows ex_um_resultado)
                \<and> (\<forall>i < length (rows ex_um_resultado).
                      cell_of (rows t ! i) ''NU_INSCRICAO''
                        = cell_of (rows ex_participantes ! i) ''NU_INSCRICAO'')"
    using carregar_tabela_resultados_unequal_counts [OF h1 h2 h3 h4 h5]
    by (elim exE conjE) (rule that)
  from fewer h6 h7 have len: "length (rows t) = length (rows ex_um_resultado)"
    and pos: "\<forall>i < length (rows ex_um_resultado).
                 cell_of (rows t ! i) ''NU_INSCRICAO'' = cell_of (rows ex_participantes ! i) ''NU_INSCRICAO''"
    by simp_all
  have p0: "cell_of (rows t ! 0) ''NU_INSCRICAO'' = Num 1"
    using pos [rule_format, of 0] by (simp add: n ex_participantes_def participante_def cell_of_def)
  have tab': "tables w' = (tables ex_world_curto)(''resultados'' \<mapsto> t)"
    using tab by (simp add: ex_config_def)
  from h1 h2 h3 h4 h5 h6 h7 run tab' len n p0 show ?thesis by auto
qed

text \<open>
  The claim as stated fails for a result file without rows: the three registration
  numbers of the participant file are all written, none is discarded.
\<close>

theorem carregar_tabela_resultados_surplus_counterexample:
  "length (rows ex_sem_resultados) < length (rows ex_participantes)
   \<and> fst (carregar_tabela_resultados ex_config 50000 ex_world_vazio) = Inr ()
   \<and> map_option (\<lambda>t. column_values t ''NU_INSCRICAO'')
        (tables (snd (carregar_tabela_resultados ex_config 50000 ex_world_vazio)) ''resultados'')
      = Some [Num 1, Num 2, Num 3]
   \<and> row_count (snd (carregar_tabela_resultados ex_config 50000 ex_world_vazio)) ''resultados''
      \<noteq> Some (length (rows ex_sem_resultados))"
proof -
  have h1: "files ex_world_vazio (ARQUIVO_RESULTADOS ex_config) = Some ex_sem_resultados"
    by (simp add: ex_world_vazio_def ex_config_def)
  have h2: "files ex_world_vazio (ARQUIVO_PARTICIPANTES ex_config) = Some ex_participantes"
    by (simp add: ex_world_vazio_def ex_config_def)
  have h3: "''NU_INSCRICAO'' \<in> set (columns ex_participantes)"
    by (simp add: ex_participantes_def)
  have h4: "(1::nat) \<le> 50000" by simp
  have t: "column_values (set_column ex_sem_resultados ''NU_INSCRICAO''
                 (column_values ex_participantes ''NU_INSCRICAO'')) ''NU_INSCRICAO''
           = [Num 1, Num 2, Num 3]"
    by (simp add: column_values_def set_column_def ex_sem_resultados_def ex_participantes_def
        participante_def cell_of_def col_notas_def)
  have n: "length (rows (set_column ex_sem_resultados ''NU_INSCRICAO''
                 (column_values ex_participantes ''NU_INSCRICAO''))) = 3"
    by (simp add: column_values_set_column ex_sem_resultados_def column_values_def
        ex_participantes_def)
  have m: "length (rows ex_sem_resultados) = 0" by (simp add: ex_sem_resultados_def)
  have k: "length (rows ex_participantes) = 3" by (simp add: ex_participantes_def)
  have c: "TABELA_RESULTADOS ex_config = ''resultados''" by (simp add: ex_config_def)
  show ?thesis
    unfolding carregar_tabela_resultados_run [OF h1 h2 h3 h4]
    by (simp add: t n m k c row_count_def)
qed

section \<open>Missing input files\<close>

text \<open>
  Claim C7. Called with a source path that does not exist, the Bulk Loader raises
  \<^verbatim>\<open>FileNotFoundError\<close> and leaves the world as it was: no file was opened, nothing was
  written, every table is untouched. The Join Loader does the same when its result file
  does not exist.
\<close>

theorem missing_input_file_aborts:
  "(\<not> path_exists w caminho_csv \<longrightarrow>
      carregar_tabela_csv nome_tabela caminho_csv chunksize w = (Inl FileNotFoundError, w))
   \<and> (\<not> path_exists w (ARQUIVO_RESULTADOS config) \<longrightarrow>
      carregar_tabela_resultados config chunksize w = (Inl FileNotFoundError, w))"
  by (simp add: carregar_tabela_csv_def carregar_tabela_resultados_def)

theorem missing_input_file_aborts_witness:
  "\<not> path_exists ex_world_carregado ''ausente.csv''
   \<and> carregar_tabela_csv ''participantes'' ''ausente.csv'' 50000 ex_world_carregado
       = (Inl FileNotFoundError, ex_world_carregado)
   \<and> \<not> path_exists ex_world_carregado (ARQUIVO_RESULTADOS (ex_config\<lparr>ARQUIVO_RESULTADOS := ''ausente.csv''\<rparr>))
   \<and> carregar_tabela_resultados (ex_config\<lparr>ARQUIVO_RESULTADOS := ''ausente.csv''\<rparr>) 50000 ex_world_carregado
       = (Inl FileNotFoundError, ex_world_carregado)"
proof -
  have a: "\<not> path_exists ex_world_carregado ''ausente.csv''"
    by (simp add: path_exists_def ex_world_carregado_def ex_files_def)
  then have b: "\<not> path_exists ex_world_carregado
                    (ARQUIVO_RESULTADOS (ex_config\<lparr>ARQUIVO_RESULTADOS := ''ausente.csv''\<rparr>))"
    by simp
  from a b missing_input_file_aborts [where w = ex_world_carregado and caminho_csv = "''ausente.csv''"
      and nome_tabela = "''participantes''" and chunksize = 50000
      and config = "ex_config\<lparr>ARQUIVO_RESULTADOS := ''ausente.csv''\<rparr>"]
  show ?thesis by simp
qed

section \<open>Properties of the Load Orchestrator\<close>

text \<open>
  Claim C3. What the Load Orchestrator does is decided by the two existence flags alone.
  Both tables exist: it returns at once and the world is unchanged, so nothing is written.
  Only the result table is missing: it does what the Join Loader does, and nothing else.
  Only the participant table is missing: it does what the Bulk Loader does (with the
  configured participant table and file), and nothing else. Both are missing: the Bulk
  Loader runs, then the Join Loader; an exception of the Bulk Loader ends the run.
\<close>

theorem verificar_carregar_dispatch:
  fixes config :: "string config" and w :: world
  defines "tabela_p \<equiv> TABELA_PARTICIPANTES config"
    and "tabela_r \<equiv> TABELA_RESULTADOS config"
  defines "bulk \<equiv> carregar_tabela_csv tabela_p (ARQUIVO_PARTICIPANTES config) 50000"
    and "join \<equiv> carregar_tabela_resultados config 50000"
  shows "(has_table w tabela_p \<and> has_table w tabela_r \<longrightarrow>
            verificar_carregar config w = (Inr (), w))
       \<and> (has_table w tabela_p \<and> \<not> has_table w tabela_r \<longrightarrow>
            verificar_carregar config w = join w)
       \<and> (\<not> has_table w tabela_p \<and> has_table w tabela_r \<longrightarrow>
            verificar_carregar config w = bulk w)
       \<and> (\<not> has_table w tabela_p \<and> \<not> has_table w tabela_r \<longrightarrow>
            verificar_carregar config w
              = (case bulk w of (Inl e, w1) \<Rightarrow> (Inl e, w1) | (Inr _, w1) \<Rightarrow> join w1))"
proof (intro conjI impI)
  assume "has_table w tabela_p \<and> has_table w tabela_r"
  then show "verificar_carregar config w = (Inr (), w)"
    by (simp add: verificar_carregar_def tabela_p_def tabela_r_def)
next
  assume "has_table w tabela_p \<and> \<not> has_table w tabela_r"
  then show "verificar_carregar config w = join w"
    by (simp add: verificar_carregar_def tabela_p_def tabela_r_def join_def)
next
  assume "\<not> has_table w tabela_p \<and> has_table w tabela_r"
  then show "verificar_carregar config w = bulk w"
    by (simp add: verificar_carregar_def tabela_p_def tabela_r_def bulk_def
        split: prod.splits sum.splits)
next
  assume "\<not> has_table w tabela_p \<and> \<not> has_table w tabela_r"
  then show "verificar_carregar config w
              = (case bulk w of (Inl e, w1) \<Rightarrow> (Inl e, w1) | (Inr _, w1) \<Rightarrow> join w1)"
    by (simp add: verificar_carregar_def tabela_p_def tabela_r_def bulk_def join_def
        split: prod.splits sum.splits)
qed

theorem verificar_carregar_dispatch_witness:
  "has_table ex_world_carregado ''participantes'' \<and> has_table ex_world_carregado ''resultados''
   \<and> verificar_carregar ex_config ex_world_carregado = (Inr (), ex_world_carregado)
   \<and> has_table ex_world_p ''participantes'' \<and> \<not> has_table ex_world_p ''resultados''
   \<and> verificar_carregar ex_config ex_world_p = carregar_tabela_resultados ex_config 50000 ex_world_p
   \<and> \<not> has_table ex_world_r ''participantes'' \<and> has_table ex_world_r ''resultados''
   \<and> verificar_carregar ex_config ex_world_r
       = carregar_tabela_csv ''participantes'' ''participantes.csv'' 50000 ex_world_r
   \<and> \<not> has_table ex_world ''participantes'' \<and> \<not> has_table ex_world ''resultados''
   \<and> fst (verificar_carregar ex_config ex_world) = Inr ()
   \<and> has_table (snd (verificar_carregar ex_config ex_world)) ''participantes''
   \<and> has_table (snd (verificar_carregar ex_config ex_world)) ''resultados''"
proof -
  have tp: "TABELA_PARTICIPANTES ex_config = ''participantes''"
    and tr: "TABELA_RESULTADOS ex_config = ''resultados''"
    and ap: "ARQUIVO_PARTICIPANTES ex_config = ''participantes.csv''"
    and ar: "ARQUIVO_RESULTADOS ex_config = ''resultados.csv''"
    by (simp_all add: ex_config_def)
  have both: "has_table ex_world_carregado ''participantes'' \<and> has_table ex_world_carregado ''resultados''"
    by (simp add: has_table_def ex_world_carregado_def)
  have only_p: "has_table ex_world_p ''participantes'' \<and> \<not> has_table ex_world_p ''resultados''"
    by (simp add: has_table_def ex_world_p_def)
  have only_r: "\<not> has_table ex_world_r ''participantes'' \<and> has_table ex_world_r ''resultados''"
    by (simp add: has_table_def ex_world_r_def)
  have none: "\<not> has_table ex_world ''participantes'' \<and> \<not> has_table ex_world ''resultados''"
    by (simp add: has_table_def ex_world_def)
  have r1: "verificar_carregar ex_config ex_world_carregado = (Inr (), ex_world_carregado)"
    using verificar_carregar_dispatch [of ex_world_carregado ex_config] both by (simp add: tp tr)
  have r2: "verificar_carregar ex_config ex_world_p = carregar_tabela_resultados ex_config 50000 ex_world_p"
    using verificar_carregar_dispatch [of ex_world_p ex_config] only_p by (simp add: tp tr)
  have r3: "verificar_carregar ex_config ex_world_r
              = carregar_tabela_csv ''participantes'' ''participantes.csv'' 50000 ex_world_r"
    using verificar_carregar_dispatch [of ex_world_r ex_config] only_r by (simp add: tp tr ap)
  have r4: "verificar_carregar ex_config ex_world
              = (case carregar_tabela_csv ''participantes'' ''participantes.csv'' 50000 ex_world of
                   (Inl e, w1) \<Rightarrow> (Inl e, w1)
                 | (Inr _, w1) \<Rightarrow> carregar_tabela_resultados ex_config 50000 w1)"
    using verificar_carregar_dispatch [of ex_world ex_config] none by (simp add: tp tr ap)
  have fp: "files ex_world ''participantes.csv'' = Some ex_participantes"
    by (simp add: ex_world_def ex_files_def)
  have fit: "types_fit 50000 ex_participantes"
    by (rule types_fit_single_batch) (simp add: ex_participantes_def)
  from carregar_tabela_csv_run [OF fp _ fit, of "''participantes''"]
  obtain evs where bulk: "carregar_tabela_csv ''participantes'' ''participantes.csv'' 50000 ex_world
      = (Inr (), ex_world\<lparr>tables := (tables ex_world)(''participantes'' \<mapsto> ex_participantes),
                          column_types := (column_types ex_world)(''participantes'' \<mapsto>
                             infer_types \<lparr>columns = columns ex_participantes,
                                          rows = take 50000 (rows ex_participantes)\<rparr>),
                          trace := trace ex_world @ OpenCsv ''participantes.csv'' # evs\<rparr>)"
    by auto
  let ?w1 = "ex_world\<lparr>tables := (tables ex_world)(''participantes'' \<mapsto> ex_participantes),
                      column_types := (column_types ex_world)(''participantes'' \<mapsto>
                         infer_types \<lparr>columns = columns ex_participantes,
                                      rows = take 50000 (rows ex_participantes)\<rparr>),
                      trace := trace ex_world @ OpenCsv ''participantes.csv'' # evs\<rparr>"
  have f1: "files ?w1 (ARQUIVO_RESULTADOS ex_config) = Some ex_resultados"
    by (simp add: ar ex_world_def ex_files_def)
  have f2: "files ?w1 (ARQUIVO_PARTICIPANTES ex_config) = Some ex_participantes"
    by (simp add: ap ex_world_def ex_files_def)
  have f3: "''NU_INSCRICAO'' \<in> set (columns ex_participantes)"
    by (simp add: ex_participantes_def)
  note join = carregar_tabela_resultados_run [OF f1 f2 f3, of 50000]
  have r5: "fst (verificar_carregar ex_config ex_world) = Inr ()"
    and r6: "has_table (snd (verificar_carregar ex_config ex_world)) ''participantes''"
    and r7: "has_table (snd (verificar_carregar ex_config ex_world)) ''resultados''"
    by (simp_all add: r4 bulk join has_table_def tr)
  from both only_p only_r none r1 r2 r3 r5 r6 r7 show ?thesis by simp
qed

section \<open>Properties of the Extractor/Transformer\<close>

lemma ex_extrair:
  "extrair_processar ex_world_analise = (Inr ex_analise, ex_world_analise\<lparr>trace := [ReadSql]\<rparr>)"
  by (simp add: extrair_processar_def read_sql_query_def ex_world_analise_def Let_def
      ex_tabela_p4_def ex_tabela_r4_def
      col_participante_def col_notas_def col_objetivas_def participante_def nota_def
      where_renda_def join_on_def select_row_def cell_of_def dropna_def mean_axis1_def
      set_column_def column_values_def grupo_renda_def ex_analise_def analise_def)

lemma row_wise_Inr:
  "row_wise f rs = Inr vs \<Longrightarrow> list_all2 (\<lambda>r v. f r = Inr v) rs vs"
  by (induction rs arbitrary: vs) (auto split: sum.splits)

lemma assign_list_all2:
  "list_all2 P rs vs \<Longrightarrow>
     assign c vs rs = map (\<lambda>(r, v). AList.update c v r) (zip rs vs)"
  by (induction rs vs rule: list_all2_induct) simp_all

lemma assign_map: "assign c (map f rs) rs = map (\<lambda>r. AList.update c (f r) r) rs"
  by (induction rs) simp_all

lemma rows_set_column_same_length:
  "length s = length (rows df) \<Longrightarrow> rows (set_column df c s) = assign c s (rows df)"
  by (rule rows_set_column_aligned) auto

lemma extrair_processar_Inr:
  assumes "extrair_processar w = (Inr df, w')"
  shows "\<exists>q ms. read_sql_query ''participantes'' ''resultados'' w = (Inr q, w')
           \<and> list_all2 (\<lambda>r m. mean_axis1 col_objetivas r = Inr m) (rows (dropna col_notas q)) ms
           \<and> rows df = map (\<lambda>(r, m). derived r m) (zip (rows (dropna col_notas q)) ms)"
proof -
  from assms obtain q ms
    where q: "read_sql_query ''participantes'' ''resultados'' w = (Inr q, w')"
      and ms: "row_wise (mean_axis1 col_objetivas) (rows (dropna col_notas q)) = Inr ms"
      and df: "df = set_column (set_column (dropna col_notas q) ''NOTA_MEDIA_OBJETIVA'' ms) ''GRUPO_RENDA''
                    (map grupo_renda
                       (column_values (set_column (dropna col_notas q) ''NOTA_MEDIA_OBJETIVA'' ms) ''Q006''))"
    by (auto simp: extrair_processar_def Let_def split: prod.splits sum.splits)
  let ?d = "dropna col_notas q"
  from ms have all2: "list_all2 (\<lambda>r m. mean_axis1 col_objetivas r = Inr m) (rows ?d) ms"
    by (rule row_wise_Inr)
  then have len: "length ms = length (rows ?d)" by (simp add: list_all2_lengthD)
  let ?d1 = "set_column ?d ''NOTA_MEDIA_OBJETIVA'' ms"
  have rows1: "rows ?d1 = map (\<lambda>(r, m). AList.update ''NOTA_MEDIA_OBJETIVA'' m r) (zip (rows ?d) ms)"
    using len all2 by (simp add: rows_set_column_same_length assign_list_all2)
  have "rows df = assign ''GRUPO_RENDA'' (map (\<lambda>r. grupo_renda (cell_of r ''Q006'')) (rows ?d1)) (rows ?d1)"
    unfolding df by (subst rows_set_column_same_length) (simp_all add: column_values_def comp_def)
  also have "\<dots> = map (\<lambda>r. AList.update ''GRUPO_RENDA'' (grupo_renda (cell_of r ''Q006'')) r) (rows ?d1)"
    by (rule assign_map)
  also have "\<dots> = map (\<lambda>(r, m). derived r m) (zip (rows ?d) ms)"
    by (simp add: rows1 derived_def comp_def case_prod_unfold)
  finally have "rows df = map (\<lambda>(r, m). derived r m) (zip (rows ?d) ms)" .
  with q all2 show ?thesis by blast
qed

lemma cell_of_derived:
  "c \<noteq> ''GRUPO_RENDA'' \<Longrightarrow> c \<noteq> ''NOTA_MEDIA_OBJETIVA'' \<Longrightarrow> cell_of (derived r m) c = cell_of r c"
  by (simp add: derived_def cell_of_update)

lemma cell_of_derived_media: "cell_of (derived r m) ''NOTA_MEDIA_OBJETIVA'' = m"
  by (simp add: derived_def cell_of_update)

lemma cell_of_derived_grupo:
  "cell_of (derived r m) ''GRUPO_RENDA'' = grupo_renda (cell_of r ''Q006'')"
  by (simp add: derived_def cell_of_update)

lemma extrair_processar_row:
  assumes "extrair_processar w = (Inr df, w')" and "r' \<in> set (rows df)"
  shows "\<exists>q r m. read_sql_query ''participantes'' ''resultados'' w = (Inr q, w')
           \<and> r \<in> set (rows q) \<and> list_all (\<lambda>c. cell_of r c \<noteq> Null) col_notas
           \<and> mean_axis1 col_objetivas r = Inr m \<and> r' = derived r m"
proof -
  from extrair_processar_Inr [OF assms(1)] obtain q ms
    where q: "read_sql_query ''participantes'' ''resultados'' w = (Inr q, w')"
      and all2: "list_all2 (\<lambda>r m. mean_axis1 col_objetivas r = Inr m) (rows (dropna col_notas q)) ms"
      and rows: "rows df = map (\<lambda>(r, m). derived r m) (zip (rows (dropna col_notas q)) ms)"
    by blast
  from assms(2) rows obtain r m where rm: "(r, m) \<in> set (zip (rows (dropna col_notas q)) ms)"
    and r': "r' = derived r m"
    by auto
  from rm all2 have mean: "mean_axis1 col_objetivas r = Inr m"
    by (auto simp: list_all2_iff)
  from rm have "r \<in> set (rows (dropna col_notas q))" by (rule set_zip_leftD)
  then have "r \<in> set (rows q)" and "list_all (\<lambda>c. cell_of r c \<noteq> Null) col_notas"
    by (simp_all add: dropna_def)
  with q mean r' show ?thesis by blast
qed

lemma read_sql_query_Inr:
  assumes "read_sql_query tabela_p tabela_r w = (Inr q, w')"
  shows "columns q = col_participante @ col_notas"
    and "r \<in> set (rows q) \<Longrightarrow> cell_of r ''Q006'' = Txt ''A'' \<or> cell_of r ''Q006'' = Txt ''B''"
proof -
  from assms obtain p where p: "tables w tabela_p = Some p"
    by (auto simp: read_sql_query_def Let_def split: option.splits)
  from assms p obtain t where t: "tables w tabela_r = Some t"
    by (auto simp: read_sql_query_def Let_def split: option.splits)
  from assms p t have q: "q = \<lparr>columns = col_participante @ col_notas,
        rows = concat (map (\<lambda>pr. map (select_row pr) (filter (join_on pr) (rows t)))
                           (filter where_renda (rows p)))\<rparr>"
    by (auto simp: read_sql_query_def Let_def split: if_splits)
  show "columns q = col_participante @ col_notas" by (simp add: q)
  have sel: "cell_of (select_row pr rr) ''Q006'' = cell_of pr ''Q006''" for pr rr
    by (simp add: select_row_def col_participante_def cell_of_def)
  assume "r \<in> set (rows q)"
  then obtain pr rr where "where_renda pr" and "r = select_row pr rr"
    by (auto simp: q)
  then show "cell_of r ''Q006'' = Txt ''A'' \<or> cell_of r ''Q006'' = Txt ''B''"
    by (simp add: sel where_renda_def)
qed

lemma mean_axis1_objetivas:
  assumes "mean_axis1 col_objetivas r = Inr m"
    and "list_all (\<lambda>c. cell_of r c \<noteq> Null) col_notas"
  shows "\<exists>cn ch lc mt. cell_of r ''NU_NOTA_CN'' = Num cn \<and> cell_of r ''NU_NOTA_CH'' = Num ch
           \<and> cell_of r ''NU_NOTA_LC'' = Num lc \<and> cell_of r ''NU_NOTA_MT'' = Num mt
           \<and> m = Num ((cn + ch + lc + mt) / 4)"
  using assms
  by (cases "cell_of r ''NU_NOTA_CN''"; cases "cell_of r ''NU_NOTA_CH''";
      cases "cell_of r ''NU_NOTA_LC''"; cases "cell_of r ''NU_NOTA_MT''")
     (auto simp: mean_axis1_def col_objetivas_def col_notas_def ac_simps)

text \<open>
  Claim C4. In every row of the frame \<^verbatim>\<open>extrair_processar\<close> returns, the four non-essay
  scores are numbers and \<^verbatim>\<open>NOTA_MEDIA_OBJETIVA\<close> is their sum divided by four; the essay
  score has no part in it. (The model computes in exact arithmetic.)
\<close>

theorem extrair_processar_media_objetiva:
  assumes "extrair_processar w = (Inr df, w')"
  shows "\<forall>r \<in> set (rows df).
           \<exists>cn ch lc mt. cell_of r ''NU_NOTA_CN'' = Num cn \<and> cell_of r ''NU_NOTA_CH'' = Num ch
             \<and> cell_of r ''NU_NOTA_LC'' = Num lc \<and> cell_of r ''NU_NOTA_MT'' = Num mt
             \<and> cell_of r ''NOTA_MEDIA_OBJETIVA'' = Num ((cn + ch + lc + mt) / 4)"
proof
  fix r' assume "r' \<in> set (rows df)"
  with assms obtain r m where complete: "list_all (\<lambda>c. cell_of r c \<noteq> Null) col_notas"
    and mean: "mean_axis1 col_objetivas r = Inr m" and r': "r' = derived r m"
    using extrair_processar_row by blast
  from mean_axis1_objetivas [OF mean complete] obtain cn ch lc mt
    where "cell_of r ''NU_NOTA_CN'' = Num cn" "cell_of r ''NU_NOTA_CH'' = Num ch"
      "cell_of r ''NU_NOTA_LC'' = Num lc" "cell_of r ''NU_NOTA_MT'' = Num mt"
      "m = Num ((cn + ch + lc + mt) / 4)"
    by blast
  then show "\<exists>cn ch lc mt. cell_of r' ''NU_NOTA_CN'' = Num cn \<and> cell_of r' ''NU_NOTA_CH'' = Num ch
             \<and> cell_of r' ''NU_NOTA_LC'' = Num lc \<and> cell_of r' ''NU_NOTA_MT'' = Num mt
             \<and> cell_of r' ''NOTA_MEDIA_OBJETIVA'' = Num ((cn + ch + lc + mt) / 4)"
    by (simp add: r' cell_of_derived cell_of_derived_media)
qed

theorem extrair_processar_media_objetiva_witness:
  "extrair_processar ex_world_analise = (Inr ex_analise, ex_world_analise\<lparr>trace := [ReadSql]\<rparr>)
   \<and> analise ''B'' 480 700 570 label_B \<in> set (rows ex_analise)
   \<and> (\<exists>cn ch lc mt. cell_of (analise ''B'' 480 700 570 label_B) ''NU_NOTA_CN'' = Num cn
         \<and> cell_of (analise ''B'' 480 700 570 label_B) ''NU_NOTA_CH'' = Num ch
         \<and> cell_of (analise ''B'' 480 700 570 label_B) ''NU_NOTA_LC'' = Num lc
         \<and> cell_of (analise ''B'' 480 700 570 label_B) ''NU_NOTA_MT'' = Num mt
         \<and> cell_of (analise ''B'' 480 700 570 label_B) ''NOTA_MEDIA_OBJETIVA''
             = Num ((cn + ch + lc + mt) / 4))
   \<and> cell_of (analise ''B'' 480 700 570 label_B) ''NOTA_MEDIA_OBJETIVA'' = Num ((480 + 500 + 600 + 700) / 4)"
proof -
  have m: "analise ''B'' 480 700 570 label_B \<in> set (rows ex_analise)"
    by (simp add: ex_analise_def)
  have v: "cell_of (analise ''B'' 480 700 570 label_B) ''NOTA_MEDIA_OBJETIVA'' = Num ((480 + 500 + 600 + 700) / 4)"
    by (simp add: analise_def cell_of_def)
  from extrair_processar_media_objetiva [OF ex_extrair, rule_format, OF m] ex_extrair m v
  show ?thesis by (intro conjI)
qed

text \<open>
  Claim C5. Every row of the frame \<^verbatim>\<open>extrair_processar\<close> returns has a value that is
  not null in each of the five score columns. Moreover, on the queried columns the
  returned rows are exactly the queried rows without a null score, in order: a queried
  row with a null score is dropped, and no other row is.
\<close>

theorem extrair_processar_scores_complete:
  assumes "extrair_processar w = (Inr df, w')"
  shows "(\<forall>r \<in> set (rows df). \<forall>c \<in> set col_notas. cell_of r c \<noteq> Null)
       \<and> (\<exists>q. read_sql_query ''participantes'' ''resultados'' w = (Inr q, w')
             \<and> map (\<lambda>r. map (cell_of r) (columns q)) (rows df)
                 = map (\<lambda>r. map (cell_of r) (columns q))
                     (filter (\<lambda>r. list_all (\<lambda>c. cell_of r c \<noteq> Null) col_notas) (rows q)))"
proof
  show "\<forall>r \<in> set (rows df). \<forall>c \<in> set col_notas. cell_of r c \<noteq> Null"
  proof (intro ballI)
    fix r' c assume "r' \<in> set (rows df)" and c: "c \<in> set col_notas"
    with assms obtain r m where complete: "list_all (\<lambda>c. cell_of r c \<noteq> Null) col_notas"
      and r': "r' = derived r m"
      using extrair_processar_row by blast
    from c have "c \<noteq> ''GRUPO_RENDA''" and "c \<noteq> ''NOTA_MEDIA_OBJETIVA''"
      by (auto simp: col_notas_def)
    then have "cell_of r' c = cell_of r c" by (simp add: r' cell_of_derived)
    with complete c show "cell_of r' c \<noteq> Null" by (simp add: list_all_iff)
  qed
next
  from extrair_processar_Inr [OF assms] obtain q ms
    where q: "read_sql_query ''participantes'' ''resultados'' w = (Inr q, w')"
      and all2: "list_all2 (\<lambda>r m. mean_axis1 col_objetivas r = Inr m) (rows (dropna col_notas q)) ms"
      and rows: "rows df = map (\<lambda>(r, m). derived r m) (zip (rows (dropna col_notas q)) ms)"
    by blast
  let ?d = "rows (dropna col_notas q)"
  have cols: "columns q = col_participante @ col_notas" using q by (rule read_sql_query_Inr)
  have same: "map (cell_of (derived r m)) (columns q) = map (cell_of r) (columns q)" for r m
    by (simp add: cols col_participante_def col_notas_def cell_of_derived)
  from all2 have len: "length ?d = length ms" by (rule list_all2_lengthD)
  have "map (\<lambda>r. map (cell_of r) (columns q)) (rows df)
          = map (\<lambda>r. map (cell_of r) (columns q)) (map fst (zip ?d ms))"
    by (simp add: rows same case_prod_unfold comp_def)
  also have "map fst (zip ?d ms) = ?d" by (rule map_fst_zip [OF len])
  finally have "map (\<lambda>r. map (cell_of r) (columns q)) (rows df)
                 = map (\<lambda>r. map (cell_of r) (columns q))
                     (filter (\<lambda>r. list_all (\<lambda>c. cell_of r c \<noteq> Null) col_notas) (rows q))"
    by (simp add: dropna_def)
  with q show "\<exists>q. read_sql_query ''participantes'' ''resultados'' w = (Inr q, w')
             \<and> map (\<lambda>r. map (cell_of r) (columns q)) (rows df)
                 = map (\<lambda>r. map (cell_of r) (columns q))
                     (filter (\<lambda>r. list_all (\<lambda>c. cell_of r c \<noteq> Null) col_notas) (rows q))"
    by blast
qed

theorem extrair_processar_scores_complete_witness:
  "extrair_processar ex_world_analise = (Inr ex_analise, ex_world_analise\<lparr>trace := [ReadSql]\<rparr>)
   \<and> analise ''A'' 400 900 550 label_A \<in> set (rows ex_analise)
   \<and> ''NU_NOTA_REDACAO'' \<in> set col_notas
   \<and> cell_of (analise ''A'' 400 900 550 label_A) ''NU_NOTA_REDACAO'' \<noteq> Null
   \<and> length (rows ex_analise) = 2"
proof -
  have m: "analise ''A'' 400 900 550 label_A \<in> set (rows ex_analise)"
    by (simp add: ex_analise_def)
  have c: "''NU_NOTA_REDACAO'' \<in> set col_notas" by (simp add: col_notas_def)
  have n: "length (rows ex_analise) = 2" by (simp add: ex_analise_def)
  from extrair_processar_scores_complete [OF ex_extrair, THEN conjunct1, rule_format, OF m c]
    ex_extrair m c n
  show ?thesis by (intro conjI)
qed

text \<open>
  Claim C6. Every row of the frame \<^verbatim>\<open>extrair_processar\<close> returns has income code A or
  B, and its \<^verbatim>\<open>GRUPO_RENDA\<close> is the label of its code: the first label for A, the second
  for B. The two labels are fixed and different.
\<close>

theorem extrair_processar_grupo_renda:
  assumes "extrair_processar w = (Inr df, w')"
  shows "(\<forall>r \<in> set (rows df).
            (cell_of r ''Q006'' = Txt ''A'' \<and> cell_of r ''GRUPO_RENDA'' = Txt label_A)
            \<or> (cell_of r ''Q006'' = Txt ''B'' \<and> cell_of r ''GRUPO_RENDA'' = Txt label_B))
       \<and> label_A \<noteq> label_B"
proof
  show "\<forall>r \<in> set (rows df).
            (cell_of r ''Q006'' = Txt ''A'' \<and> cell_of r ''GRUPO_RENDA'' = Txt label_A)
            \<or> (cell_of r ''Q006'' = Txt ''B'' \<and> cell_of r ''GRUPO_RENDA'' = Txt label_B)"
  proof
    fix r' assume "r' \<in> set (rows df)"
    with assms obtain q r m where q: "read_sql_query ''participantes'' ''resultados'' w = (Inr q, w')"
      and r: "r \<in> set (rows q)" and r': "r' = derived r m"
      using extrair_processar_row by blast
    from read_sql_query_Inr(2) [OF q r]
    have "cell_of r ''Q006'' = Txt ''A'' \<or> cell_of r ''Q006'' = Txt ''B''" .
    then show "(cell_of r' ''Q006'' = Txt ''A'' \<and> cell_of r' ''GRUPO_RENDA'' = Txt label_A)
            \<or> (cell_of r' ''Q006'' = Txt ''B'' \<and> cell_of r' ''GRUPO_RENDA'' = Txt label_B)"
      by (auto simp: r' cell_of_derived cell_of_derived_grupo grupo_renda_def)
  qed
next
  show "label_A \<noteq> label_B" by (simp add: label_A_def label_B_def)
qed

theorem extrair_processar_grupo_renda_witness:
  "extrair_processar ex_world_analise = (Inr ex_analise, ex_world_analise\<lparr>trace := [ReadSql]\<rparr>)
   \<and> analise ''B'' 480 700 570 label_B \<in> set (rows ex_analise)
   \<and> cell_of (analise ''B'' 480 700 570 label_B) ''Q006'' = Txt ''B''
   \<and> cell_of (analise ''B'' 480 700 570 label_B) ''GRUPO_RENDA'' = Txt label_B
   \<and> label_A \<noteq> label_B"
proof -
  have m: "analise ''B'' 480 700 570 label_B \<in> set (rows ex_analise)"
    by (simp add: ex_analise_def)
  have b: "cell_of (analise ''B'' 480 700 570 label_B) ''Q006'' \<noteq> Txt ''A''"
    by (simp add: analise_def cell_of_def)
  note t = extrair_processar_grupo_renda [OF ex_extrair]
  from t [THEN conjunct1, rule_format, OF m] b
  have "cell_of (analise ''B'' 480 700 570 label_B) ''Q006'' = Txt ''B''
        \<and> cell_of (analise ''B'' 480 700 570 label_B) ''GRUPO_RENDA'' = Txt label_B"
    by blast
  with ex_extrair m t [THEN conjunct2] show ?thesis by (intro conjI) simp_all
qed

section \<open>Configuration loading\<close>

lemma py_int_5432: "py_int ''5432'' = Some 5432"
  by (simp add: py_int_def strip_def is_space_def is_digit_def)

text \<open>
  Claim C8 says that configuration loading ends the process, with a message naming the
  missing value, whenever one of the nine required values is absent. The code checks the
  password only. Without a host, or without a table name, \<^verbatim>\<open>carregar_config\<close> returns a
  dictionary holding \<^verbatim>\<open>None\<close>; without a port it raises a \<^verbatim>\<open>TypeError\<close>; only without a
  password does it end the process with status 1.
\<close>

theorem carregar_config_returns_without_host:
  "carregar_config (ex_env(''DB_HOST'' := None))
     = Returned \<lparr>DB_HOST = None, DB_PORT = 5432, DB_NAME = Some ''enem'',
                 DB_USER = Some ''postgres'', DB_PASS = Some ''segredo'',
                 ARQUIVO_PARTICIPANTES = Some ''participantes.csv'',
                 ARQUIVO_RESULTADOS = Some ''resultados.csv'',
                 TABELA_PARTICIPANTES = Some ''participantes'',
                 TABELA_RESULTADOS = Some ''resultados''\<rparr>
   \<and> carregar_config (ex_env(''TABELA_RESULTADOS'' := None))
     = Returned \<lparr>DB_HOST = Some ''localhost'', DB_PORT = 5432, DB_NAME = Some ''enem'',
                 DB_USER = Some ''postgres'', DB_PASS = Some ''segredo'',
                 ARQUIVO_PARTICIPANTES = Some ''participantes.csv'',
                 ARQUIVO_RESULTADOS = Some ''resultados.csv'',
                 TABELA_PARTICIPANTES = Some ''participantes'',
                 TABELA_RESULTADOS = None\<rparr>
   \<and> carregar_config (ex_env(''DB_PORT'' := None)) = Raised TypeError
   \<and> carregar_config (ex_env(''DB_PASS'' := None)) = Exit 1"
  by (simp add: carregar_config_def ex_env_def py_int_5432)

section \<open>Table names\<close>

lemma extrair_processar_no_table:
  "tables w ''participantes'' = None \<Longrightarrow> fst (extrair_processar w) = Inl ProgrammingError"
  by (simp add: extrair_processar_def read_sql_query_def Let_def)

text \<open>
  Claim C9 says that every component uses the configured table names. The loaders do;
  the query of \<^verbatim>\<open>extrair_processar\<close> does not. With the tables configured as
  \<^verbatim>\<open>enem_participantes\<close> and \<^verbatim>\<open>enem_resultados\<close> and an empty store, the orchestrator
  loads both tables under these names, and the extraction that follows fails: the table
  \<^verbatim>\<open>participantes\<close> it asks for does not exist.
\<close>

theorem extrair_processar_ignores_table_names:
  "fst (verificar_carregar ex_config_renomeado ex_world) = Inr ()
   \<and> has_table (snd (verificar_carregar ex_config_renomeado ex_world)) ''enem_participantes''
   \<and> has_table (snd (verificar_carregar ex_config_renomeado ex_world)) ''enem_resultados''
   \<and> fst (extrair_processar (snd (verificar_carregar ex_config_renomeado ex_world)))
       = Inl ProgrammingError"
proof -
  let ?c = ex_config_renomeado
  have tp: "TABELA_PARTICIPANTES ?c = ''enem_participantes''"
    and tr: "TABELA_RESULTADOS ?c = ''enem_resultados''"
    and ap: "ARQUIVO_PARTICIPANTES ?c = ''participantes.csv''"
    and ar: "ARQUIVO_RESULTADOS ?c = ''resultados.csv''"
    by (simp_all add: ex_config_renomeado_def ex_config_def)
  have none: "\<not> has_table ex_world ''enem_participantes''" "\<not> has_table ex_world ''enem_resultados''"
    by (simp_all add: has_table_def ex_world_def)
  have fp: "files ex_world ''participantes.csv'' = Some ex_participantes"
    by (simp add: ex_world_def ex_files_def)
  have fit: "types_fit 50000 ex_participantes"
    by (rule types_fit_single_batch) (simp add: ex_participantes_def)
  from carregar_tabela_csv_run [OF fp _ fit, of "''enem_participantes''"]
  obtain evs where bulk: "carregar_tabela_csv ''enem_participantes'' ''participantes.csv'' 50000 ex_world
      = (Inr (), ex_world\<lparr>tables := (tables ex_world)(''enem_participantes'' \<mapsto> ex_participantes),
                          column_types := (column_types ex_world)(''enem_participantes'' \<mapsto>
                             infer_types \<lparr>columns = columns ex_participantes,
                                          rows = take 50000 (rows ex_participantes)\<rparr>),
                          trace := trace ex_world @ OpenCsv ''participantes.csv'' # evs\<rparr>)"
    by auto
  let ?w1 = "ex_world\<lparr>tables := (tables ex_world)(''enem_participantes'' \<mapsto> ex_participantes),
                      column_types := (column_types ex_world)(''enem_participantes'' \<mapsto>
                         infer_types \<lparr>columns = columns ex_participantes,
                                      rows = take 50000 (rows ex_participantes)\<rparr>),
                      trace := trace ex_world @ OpenCsv ''participantes.csv'' # evs\<rparr>"
  have f1: "files ?w1 (ARQUIVO_RESULTADOS ?c) = Some ex_resultados"
    by (simp add: ar ex_world_def ex_files_def)
  have f2: "files ?w1 (ARQUIVO_PARTICIPANTES ?c) = Some ex_participantes"
    by (simp add: ap ex_world_def ex_files_def)
  have f3: "''NU_INSCRICAO'' \<in> set (columns ex_participantes)"
    by (simp add: ex_participantes_def)
  note join = carregar_tabela_resultados_run [OF f1 f2 f3, of 50000]
  let ?t = "set_column ex_resultados ''NU_INSCRICAO'' (column_values ex_participantes ''NU_INSCRICAO'')"
  let ?w2 = "?w1\<lparr>tables := (tables ?w1)(''enem_resultados'' \<mapsto> ?t),
                   column_types := (column_types ?w1)(''enem_resultados'' \<mapsto> infer_types ?t),
                   trace := trace ?w1 @ [OpenCsv ''participantes.csv'', OpenCsv ''resultados.csv'',
                                         ToSql ''enem_resultados'' Replace (length (rows ?t))]\<rparr>"
  have run: "verificar_carregar ?c ex_world = (Inr (), ?w2)"
    using none by (simp add: verificar_carregar_def Let_def tp tr ap ar bulk join)
  have "tables ?w2 ''participantes'' = None" by (simp add: ex_world_def)
  then have "fst (extrair_processar ?w2) = Inl ProgrammingError"
    by (rule extrair_processar_no_table)
  moreover have "has_table ?w2 ''enem_participantes''" "has_table ?w2 ''enem_resultados''"
    by (simp_all add: has_table_def)
  ultimately show ?thesis unfolding run by simp
qed

end
